theory Spec2Isabelle
  imports Complex_Main "HOL-Library.Sublist" "HOL-Library.Multiset" "HOL-Library.Log_Nat"
begin

section \<open>Python values used by the toolkit\<close>

text \<open>
  The toolkit is Python on top of pandas. Strings are modelled as ASCII text
  (\<^typ>\<open>string\<close>), a Python float as the rational number it denotes, dictionaries as
  association lists in insertion order, and every \<^verbatim>\<open>raise\<close> as the left summand of a
  sum type. The bias detector's rates and ratio are computed with the rounding of
  double-precision arithmetic (section on doubles below); the uniqueness ratios, the
  hallucination rate and the compliance score are kept as exact quotients.
\<close>

datatype py_error =
    ZeroDivisionError
  | KeyError string
  | AttributeError string
  | ValueError string
  | LibraryError string

text \<open>The text \<^verbatim>\<open>str(e)\<close> of an exception.\<close>

fun str_error :: "py_error \<Rightarrow> string" where
  "str_error ZeroDivisionError = ''division by zero''"
| "str_error (KeyError k) = [CHR 0x27] @ k @ [CHR 0x27]"
| "str_error (AttributeError m) = m"
| "str_error (ValueError m) = m"
| "str_error (LibraryError m) = m"

text \<open>Python's true division \<^verbatim>\<open>a / b\<close> of two \<^verbatim>\<open>int\<close>s.\<close>

definition truediv :: "nat \<Rightarrow> nat \<Rightarrow> py_error + rat" where
  "truediv a b = (if b = 0 then Inl ZeroDivisionError else Inr (of_nat a / of_nat b))"

subsection \<open>Strings\<close>

definition lower_char :: "char \<Rightarrow> char" where
  "lower_char c =
     (case map_of (zip ''ABCDEFGHIJKLMNOPQRSTUVWXYZ'' ''abcdefghijklmnopqrstuvwxyz'') c of
        None \<Rightarrow> c
      | Some l \<Rightarrow> l)"

text \<open>\<^verbatim>\<open>s.lower()\<close>\<close>

definition lower :: "string \<Rightarrow> string" where
  "lower s = map lower_char s"

text \<open>\<^verbatim>\<open>needle in haystack\<close> on strings: the needle occurs as a contiguous substring.\<close>

fun py_in :: "string \<Rightarrow> string \<Rightarrow> bool" where
  "py_in needle [] = (needle = [])"
| "py_in needle (c # cs) = (prefix needle (c # cs) \<or> py_in needle cs)"

text \<open>\<^verbatim>\<open>' '.join(parts)\<close>\<close>

fun join_space :: "string list \<Rightarrow> string" where
  "join_space [] = []"
| "join_space [s] = s"
| "join_space (s # t # ts) = s @ CHR '' '' # join_space (t # ts)"

definition whitespace :: "char list" where
  "whitespace = [CHR '' '', CHR 0x09, CHR 0x0A, CHR 0x0B, CHR 0x0C, CHR 0x0D]"

text \<open>\<^verbatim>\<open>s.split()\<close>: the maximal runs of non-whitespace characters.\<close>

fun split_acc :: "string \<Rightarrow> string \<Rightarrow> string list" where
  "split_acc cur [] = (if cur = [] then [] else [cur])"
| "split_acc cur (c # cs) =
     (if c \<in> set whitespace
      then (if cur = [] then split_acc [] cs else cur # split_acc [] cs)
      else split_acc (cur @ [c]) cs)"

definition split :: "string \<Rightarrow> string list" where
  "split s = split_acc [] s"

definition digit_char :: "nat \<Rightarrow> char" where
  "digit_char d = ''0123456789'' ! d"

text \<open>\<^verbatim>\<open>str(n)\<close> of a non-negative \<^verbatim>\<open>int\<close>.\<close>

fun str_nat :: "nat \<Rightarrow> string" where
  "str_nat n = (if n < 10 then [digit_char n] else str_nat (n div 10) @ [digit_char (n mod 10)])"

declare str_nat.simps [simp del]

subsection \<open>Distinct values in order of first occurrence\<close>

text \<open>pandas' \<^verbatim>\<open>unique()\<close> and \<^verbatim>\<open>drop_duplicates()\<close> keep the first occurrence of
  each value, in the order in which the values first occur.\<close>

fun unique :: "'a list \<Rightarrow> 'a list" where
  "unique [] = []"
| "unique (x # xs) = x # unique (filter (\<lambda>y. y \<noteq> x) xs)"

subsection \<open>Doubles\<close>

text \<open>numpy's \<^verbatim>\<open>rint\<close>: the nearest integer, a tie to the even one.\<close>

definition round_half_even :: "rat \<Rightarrow> int" where
  "round_half_even x =
     (if x - of_int \<lfloor>x\<rfloor> < 1 / 2 then \<lfloor>x\<rfloor>
      else if x - of_int \<lfloor>x\<rfloor> > 1 / 2 then \<lfloor>x\<rfloor> + 1
      else if even \<lfloor>x\<rfloor> then \<lfloor>x\<rfloor> else \<lfloor>x\<rfloor> + 1)"

text \<open>The binary exponent of a positive rational: \<open>2 powi binade x \<le> x < 2 powi (binade x + 1)\<close>.\<close>

definition binade :: "rat \<Rightarrow> int" where
  "binade x =
     (case quotient_of x of (p, q) \<Rightarrow>
        if 2 powi (bitlen p - bitlen q) \<le> x then bitlen p - bitlen q
        else bitlen p - bitlen q - 1)"

text \<open>
  The double nearest to a rational, a tie to the even mantissa: the result of one
  IEEE-754 binary64 operation whose exact result is \<open>x\<close>. A double has 53 significant
  bits. The exponent range is not modelled: the rates and ratios of the toolkit lie
  between \<open>1/10000\<close> and \<open>10000\<close>, or are 0.
\<close>

definition float64 :: "rat \<Rightarrow> rat" where
  "float64 x =
     (if x = 0 then 0
      else sgn x * of_int (round_half_even (\<bar>x\<bar> / 2 powi (binade \<bar>x\<bar> - 52)))
             * 2 powi (binade \<bar>x\<bar> - 52))"

subsection \<open>Dictionaries\<close>

text \<open>\<^verbatim>\<open>d[k] = v\<close>: an existing key keeps its position, a new key goes last.\<close>

fun dict_set :: "('k \<times> 'v) list \<Rightarrow> 'k \<Rightarrow> 'v \<Rightarrow> ('k \<times> 'v) list" where
  "dict_set [] k v = [(k, v)]"
| "dict_set ((k', v') # d) k v = (if k' = k then (k, v) # d else (k', v') # dict_set d k v)"

section \<open>Regular expressions as \<^verbatim>\<open>re.findall\<close> runs them\<close>

text \<open>
  The five PII patterns use word boundaries, greedy bounded or unbounded repetitions of
  a character class, and one optional group. A pattern is a sequence of such items.
  The matcher is the backtracking one of Python's \<^verbatim>\<open>re\<close>: a greedy repetition takes
  as many characters as it can and gives them back one at a time when the rest of the
  pattern fails; an optional group is tried before it is skipped.
\<close>

datatype rx =
    WordB
  | Rep "char list" nat "nat option"
  | Opt "rx list"

fun rx_weight :: "rx \<Rightarrow> nat" where
  "rx_weight WordB = 1"
| "rx_weight (Rep cls lo hi) = 1"
| "rx_weight (Opt body) = 1 + sum_list (map rx_weight body)"

definition letters :: "char list" where
  "letters = ''ABCDEFGHIJKLMNOPQRSTUVWXYZabcdefghijklmnopqrstuvwxyz''"

definition digits :: "char list" where
  "digits = ''0123456789''"

text \<open>\<^verbatim>\<open>\w\<close>\<close>

definition is_word :: "char \<Rightarrow> bool" where
  "is_word c = (c \<in> set (letters @ digits @ ''_''))"

text \<open>\<^verbatim>\<open>\b\<close> between the previous character and the rest of the text; the two ends
  of the text count as non-word characters.\<close>

fun boundary :: "char option \<Rightarrow> string \<Rightarrow> bool" where
  "boundary None [] = False"
| "boundary None (c # cs) = is_word c"
| "boundary (Some p) [] = is_word p"
| "boundary (Some p) (c # cs) = (is_word p \<noteq> is_word c)"

text \<open>Membership in a character class under \<^verbatim>\<open>re.IGNORECASE\<close>.\<close>

definition in_class :: "char list \<Rightarrow> char \<Rightarrow> bool" where
  "in_class cls c = (lower_char c \<in> set (map lower_char cls))"

fun dec_hi :: "nat option \<Rightarrow> nat option" where
  "dec_hi None = None"
| "dec_hi (Some h) = Some (h - 1)"

text \<open>
  \<open>rx_match items prev s\<close> matches the items at the start of \<open>s\<close>, where \<open>prev\<close>
  is the character before \<open>s\<close> in the whole text. It returns the character before
  and the text after the match that the backtracking search finds first.
\<close>

function rx_match :: "rx list \<Rightarrow> char option \<Rightarrow> string \<Rightarrow> (char option \<times> string) option" where
  "rx_match [] prev s = Some (prev, s)"
| "rx_match (WordB # rs) prev s = (if boundary prev s then rx_match rs prev s else None)"
| "rx_match (Rep cls lo hi # rs) prev [] = (if lo = 0 then rx_match rs prev [] else None)"
| "rx_match (Rep cls lo hi # rs) prev (c # cs) =
     (case (if hi \<noteq> Some 0 \<and> in_class cls c
            then rx_match (Rep cls (lo - 1) (dec_hi hi) # rs) (Some c) cs
            else None) of
        Some r \<Rightarrow> Some r
      | None \<Rightarrow> if lo = 0 then rx_match rs prev (c # cs) else None)"
| "rx_match (Opt body # rs) prev s =
     (case rx_match (body @ rs) prev s of
        Some r \<Rightarrow> Some r
      | None \<Rightarrow> rx_match rs prev s)"
  by pat_completeness auto
termination
  by (relation "measures [\<lambda>(rs, prev, s). sum_list (map rx_weight rs), \<lambda>(rs, prev, s). length s]")
     auto

text \<open>
  \<^verbatim>\<open>len(re.findall(pattern, text, re.IGNORECASE))\<close>: the scan goes left to right,
  a match is counted and the scan goes on where it ended; where nothing matches the
  scan moves one character on. After an empty match the scan moves one character on.
\<close>

function findall_count :: "rx list \<Rightarrow> char option \<Rightarrow> string \<Rightarrow> nat" where
  "findall_count p prev s =
     (case rx_match p prev s of
        None \<Rightarrow> (case s of [] \<Rightarrow> 0 | c # cs \<Rightarrow> findall_count p (Some c) cs)
      | Some (prev', rest) \<Rightarrow>
          if length rest < length s then 1 + findall_count p prev' rest
          else 1 + (case s of [] \<Rightarrow> 0 | c # cs \<Rightarrow> findall_count p (Some c) cs))"
  by pat_completeness auto
termination
  by (relation "measure (\<lambda>(p, prev, s). length s)") auto

declare findall_count.simps [simp del]

definition count_matches :: "rx list \<Rightarrow> string \<Rightarrow> nat" where
  "count_matches p text = findall_count p None text"

section \<open>Data frames\<close>

text \<open>
  A column has a label and a dtype. A column of dtype \<^verbatim>\<open>object\<close> holds text, any other
  column holds numbers; both may have missing entries (\<open>None\<close> below, pandas' NaN).
  A data frame has a row count (\<^verbatim>\<open>len(df)\<close>) and its columns in order. Two columns
  may carry the same label. The labels are strings and the entries of an object column
  are strings or missing: a frame with a label that is not a string (on which
  \<^verbatim>\<open>col.lower()\<close> raises \<^verbatim>\<open>AttributeError\<close>) or with an unhashable entry (on which
  \<^verbatim>\<open>nunique()\<close> raises \<^verbatim>\<open>TypeError\<close>) is outside the model.
\<close>

datatype dtype = Int64 | Float64 | Bool | Other_dtype

datatype col_data =
    Text "string option list"
  | Numbers dtype "rat option list"

datatype cell = NaN | Str string | Num rat

record column =
  col_name :: string
  col_data :: col_data

record dataframe =
  df_len :: nat
  df_columns :: "column list"

fun cells_of :: "col_data \<Rightarrow> cell list" where
  "cells_of (Text vs) = map (\<lambda>v. case v of None \<Rightarrow> NaN | Some s \<Rightarrow> Str s) vs"
| "cells_of (Numbers d vs) = map (\<lambda>v. case v of None \<Rightarrow> NaN | Some r \<Rightarrow> Num r) vs"

definition cells :: "column \<Rightarrow> cell list" where
  "cells c = cells_of (col_data c)"


text \<open>\<^verbatim>\<open>df[col].dtype == 'object'\<close>\<close>

fun is_object :: "col_data \<Rightarrow> bool" where
  "is_object (Text vs) = True"
| "is_object (Numbers d vs) = False"

text \<open>\<^verbatim>\<open>df[col].dtype in ['object', 'int64', 'float64']\<close>\<close>

fun eligible_data :: "col_data \<Rightarrow> bool" where
  "eligible_data (Text vs) = True"
| "eligible_data (Numbers d vs) = (d = Int64 \<or> d = Float64)"

definition eligible :: "column \<Rightarrow> bool" where
  "eligible c = eligible_data (col_data c)"

text \<open>\<^verbatim>\<open>df[col].astype(str).values\<close> of a text column; a missing entry reads \<^verbatim>\<open>nan\<close>.\<close>

fun astype_str :: "string option \<Rightarrow> string" where
  "astype_str None = ''nan''"
| "astype_str (Some s) = s"

text \<open>\<^verbatim>\<open>df[col].nunique()\<close>: the number of distinct values, missing entries left out.\<close>

definition nunique :: "column \<Rightarrow> nat" where
  "nunique c = length (unique (filter (\<lambda>v. v \<noteq> NaN) (cells c)))"

text \<open>The rows of \<^verbatim>\<open>df[cols]\<close>, and \<^verbatim>\<open>drop_duplicates\<close> on them (two missing
  entries count as equal). The cells are read by row number; in a frame of pandas every
  column has \<^verbatim>\<open>len(df)\<close> entries (\<open>wf_dataframe\<close>).\<close>

definition rows_of :: "dataframe \<Rightarrow> column list \<Rightarrow> cell list list" where
  "rows_of df cols = map (\<lambda>i. map (\<lambda>c. cells c ! i) cols) [0..<df_len df]"

definition drop_duplicates :: "cell list list \<Rightarrow> cell list list" where
  "drop_duplicates rows = unique rows"

text \<open>
  \<^verbatim>\<open>df[name]\<close> where a single column is expected (\<^verbatim>\<open>df[name].dtype\<close>): a label that
  no column carries raises \<^verbatim>\<open>KeyError\<close>; a label that two columns carry selects a frame,
  which has no \<^verbatim>\<open>dtype\<close>, and the attribute access raises \<^verbatim>\<open>AttributeError\<close>.
\<close>

definition labelled :: "dataframe \<Rightarrow> string \<Rightarrow> column list" where
  "labelled df name = filter (\<lambda>c. col_name c = name) (df_columns df)"

definition no_dtype :: string where
  "no_dtype = [CHR 0x27] @ ''DataFrame'' @ [CHR 0x27] @ '' object has no attribute ''
     @ [CHR 0x27] @ ''dtype'' @ [CHR 0x27]"

definition get_column :: "dataframe \<Rightarrow> string \<Rightarrow> py_error + column" where
  "get_column df name =
     (case labelled df name of
        [] \<Rightarrow> Inl (KeyError name)
      | [c] \<Rightarrow> Inr c
      | c # d # cs \<Rightarrow> Inl (AttributeError no_dtype))"

section \<open>The privacy analyzer\<close>

subsection \<open>Patterns and lexicon (\<^verbatim>\<open>PrivacyAnalyzer.__init__\<close>)\<close>

definition email_rx :: "rx list" where
  "email_rx =
     [WordB, Rep (letters @ digits @ ''._%+-'') 1 None, Rep ''@'' 1 (Some 1),
      Rep (letters @ digits @ ''.-'') 1 None, Rep ''.'' 1 (Some 1),
      Rep (letters @ ''|'') 2 None, WordB]"

definition phone_rx :: "rx list" where
  "phone_rx =
     [WordB, Rep digits 3 (Some 3), Rep ''-.'' 0 (Some 1), Rep digits 3 (Some 3),
      Rep ''-.'' 0 (Some 1), Rep digits 4 (Some 4), WordB]"

definition ssn_rx :: "rx list" where
  "ssn_rx =
     [WordB, Rep digits 3 (Some 3), Rep ''-'' 1 (Some 1), Rep digits 2 (Some 2),
      Rep ''-'' 1 (Some 1), Rep digits 4 (Some 4), WordB]"

definition credit_card_rx :: "rx list" where
  "credit_card_rx =
     [WordB, Rep digits 4 (Some 4), Rep (''-'' @ whitespace) 0 (Some 1),
      Rep digits 4 (Some 4), Rep (''-'' @ whitespace) 0 (Some 1),
      Rep digits 4 (Some 4), Rep (''-'' @ whitespace) 0 (Some 1),
      Rep digits 4 (Some 4), WordB]"

definition zipcode_rx :: "rx list" where
  "zipcode_rx =
     [WordB, Rep digits 5 (Some 5), Opt [Rep ''-'' 1 (Some 1), Rep digits 4 (Some 4)], WordB]"

definition pii_patterns :: "(string \<times> rx list) list" where
  "pii_patterns =
     [(''email'', email_rx), (''phone'', phone_rx), (''ssn'', ssn_rx),
      (''credit_card'', credit_card_rx), (''zipcode'', zipcode_rx)]"

definition first_names :: "string list" where
  "first_names =
     [''john'', ''mary'', ''james'', ''patricia'', ''robert'', ''jennifer'',
      ''michael'', ''linda'', ''william'', ''elizabeth'', ''david'', ''barbara'']"

definition last_names :: "string list" where
  "last_names =
     [''smith'', ''johnson'', ''williams'', ''brown'', ''jones'', ''garcia'',
      ''miller'', ''davis'', ''rodriguez'', ''martinez'', ''hernandez'']"

subsection \<open>\<^verbatim>\<open>_detect_names\<close> and \<^verbatim>\<open>_detect_pii\<close>\<close>

definition first_name_count :: "string \<Rightarrow> nat" where
  "first_name_count text = length (filter (\<lambda>name. py_in name (lower text)) first_names)"

definition last_name_count :: "string \<Rightarrow> nat" where
  "last_name_count text = length (filter (\<lambda>name. py_in name (lower text)) last_names)"

definition detect_names :: "string \<Rightarrow> string list" where
  "detect_names text =
     (if first_name_count text > 0
      then [''potential_first_names: '' @ str_nat (first_name_count text)] else [])
     @ (if last_name_count text > 0
        then [''potential_last_names: '' @ str_nat (last_name_count text)] else [])"

text \<open>\<^verbatim>\<open>' '.join(df[column].astype(str).values)\<close>\<close>

definition text_data :: "string option list \<Rightarrow> string" where
  "text_data vs = join_space (map astype_str vs)"

definition pattern_findings :: "string \<Rightarrow> string list" where
  "pattern_findings text =
     concat (map (\<lambda>(pii_type, pattern).
        if count_matches pattern text > 0
        then [pii_type @ '': '' @ str_nat (count_matches pattern text) @ '' instances'']
        else []) pii_patterns)"

fun column_pii :: "col_data \<Rightarrow> string list" where
  "column_pii (Text vs) = pattern_findings (text_data vs) @ detect_names (text_data vs)"
| "column_pii (Numbers d vs) = []"

text \<open>The loop \<^verbatim>\<open>for column in df.columns\<close>, which reads \<^verbatim>\<open>df[column].dtype\<close>.\<close>

fun detect_pii_loop ::
  "dataframe \<Rightarrow> string list \<Rightarrow> (string \<times> string list) list
     \<Rightarrow> py_error + (string \<times> string list) list" where
  "detect_pii_loop df [] pii_found = Inr pii_found"
| "detect_pii_loop df (column # columns) pii_found =
     (case get_column df column of
        Inl e \<Rightarrow> Inl e
      | Inr series \<Rightarrow>
          if column_pii (col_data series) \<noteq> []
          then detect_pii_loop df columns
                 (dict_set pii_found column (column_pii (col_data series)))
          else detect_pii_loop df columns pii_found)"

definition detect_pii :: "dataframe \<Rightarrow> py_error + (string \<times> string list) list" where
  "detect_pii df = detect_pii_loop df (map col_name (df_columns df)) []"

subsection \<open>\<^verbatim>\<open>_detect_quasi_identifiers\<close>\<close>

definition potential_qi :: "(string \<times> string list) list" where
  "potential_qi =
     [(''age'', [''age'', ''birth_year'', ''dob'']),
      (''location'', [''zip'', ''zipcode'', ''city'', ''state'', ''address'', ''location'']),
      (''demographic'', [''gender'', ''race'', ''ethnicity'', ''marital_status'']),
      (''professional'', [''job_title'', ''employer'', ''salary'', ''income'']),
      (''temporal'', [''date'', ''timestamp'', ''time''])]"

text \<open>\<^verbatim>\<open>any(keyword in col.lower() for keyword in keywords)\<close>\<close>

definition name_has_keyword :: "string list \<Rightarrow> string \<Rightarrow> bool" where
  "name_has_keyword keywords col = list_ex (\<lambda>keyword. py_in keyword (lower col)) keywords"

definition found_columns :: "string list \<Rightarrow> string list \<Rightarrow> string list" where
  "found_columns keywords cols = filter (name_has_keyword keywords) cols"

text \<open>
  The function returns \<^verbatim>\<open>list(set(quasi_identifiers))\<close>. Python leaves the order of
  that list to the hash table; the model keeps the order of first occurrence.
\<close>

definition detect_quasi_identifiers :: "dataframe \<Rightarrow> string list" where
  "detect_quasi_identifiers df =
     unique (concat (map (\<lambda>(qi_type, keywords).
        found_columns keywords (map col_name (df_columns df))) potential_qi))"

subsection \<open>\<^verbatim>\<open>_analyze_uniqueness\<close>\<close>

text \<open>\<^verbatim>\<open>analyze_dataset\<close> calls this function after \<^verbatim>\<open>_detect_pii\<close> has returned, that
  is on a frame whose labels are distinct; there \<^verbatim>\<open>df[col]\<close> is the column itself.\<close>

fun column_ratios :: "nat \<Rightarrow> column list \<Rightarrow> (string \<times> rat) list \<Rightarrow> py_error + (string \<times> rat) list" where
  "column_ratios n [] uniqueness_risk = Inr uniqueness_risk"
| "column_ratios n (c # cs) uniqueness_risk =
     (if eligible c
      then (case truediv (nunique c) n of
              Inl e \<Rightarrow> Inl e
            | Inr unique_ratio \<Rightarrow>
                column_ratios n cs (dict_set uniqueness_risk (col_name c) unique_ratio))
      else column_ratios n cs uniqueness_risk)"

definition important_cols :: "dataframe \<Rightarrow> column list" where
  "important_cols df = take 3 (filter eligible (df_columns df))"

definition combo_uniqueness :: "dataframe \<Rightarrow> py_error + rat" where
  "combo_uniqueness df =
     truediv (length (drop_duplicates (rows_of df (important_cols df)))) (df_len df)"

definition analyze_uniqueness :: "dataframe \<Rightarrow> py_error + (string \<times> rat) list" where
  "analyze_uniqueness df =
     (case column_ratios (df_len df) (df_columns df) [] of
        Inl e \<Rightarrow> Inl e
      | Inr uniqueness_risk \<Rightarrow>
          if df_len df > 0 \<and> length (important_cols df) \<ge> 2
          then (case combo_uniqueness df of
                  Inl e \<Rightarrow> Inl e
                | Inr r \<Rightarrow> Inr (dict_set uniqueness_risk ''combination_2-3_cols'' r))
          else Inr uniqueness_risk)"

subsection \<open>\<^verbatim>\<open>_generate_recommendations\<close> and \<^verbatim>\<open>analyze_dataset\<close>\<close>

record privacy_results =
  pii_detected :: "(string \<times> string list) list"
  quasi_identifiers :: "string list"
  uniqueness_risk :: "(string \<times> rat) list"
  privacy_recommendations :: "string list"

text \<open>The recommendation texts are the source's without their leading lock sign.\<close>

definition generate_recommendations ::
  "(string \<times> string list) list \<Rightarrow> string list \<Rightarrow> (string \<times> rat) list \<Rightarrow> string list" where
  "generate_recommendations pii qi risk =
     (if pii \<noteq> []
      then [''Remove or encrypt detected PII before model training'',
            ''Consider data anonymization techniques'']
      else [])
     @ (if qi \<noteq> []
        then [''Apply k-anonymity or l-diversity to quasi-identifiers'',
              ''Consider generalization/suppression of sensitive attributes'']
        else [])
     @ (if filter (\<lambda>(col, ratio). ratio > 9 / 10) risk \<noteq> []
        then [''Reduce granularity of highly unique columns'',
              ''Consider data aggregation or binning'']
        else [])
     @ [''Implement differential privacy for model training'',
        ''Use secure multi-party computation for sensitive data'',
        ''Regular privacy audits and monitoring'']"

definition analyze_dataset :: "dataframe \<Rightarrow> py_error + privacy_results" where
  "analyze_dataset df =
     (case detect_pii df of
        Inl e \<Rightarrow> Inl e
      | Inr pii \<Rightarrow>
         (let qi = detect_quasi_identifiers df
          in case analyze_uniqueness df of
               Inl e \<Rightarrow> Inl e
             | Inr risk \<Rightarrow>
                 Inr \<lparr>pii_detected = pii, quasi_identifiers = qi, uniqueness_risk = risk,
                      privacy_recommendations = generate_recommendations pii qi risk\<rparr>))"

subsection \<open>\<^verbatim>\<open>_check_data_leakage\<close> and \<^verbatim>\<open>analyze_model_outputs\<close>\<close>







section \<open>The bias detector\<close>

text \<open>
  Objects of the libraries the toolkit calls (fairlearn frames, SHAP explanations) are
  known to the toolkit only through \<^verbatim>\<open>str\<close>; such an object is modelled by that text.
\<close>

datatype ext_obj = Ext (py_str: string)

text \<open>
  The library calls the toolkit makes, as parameters: whether fairlearn could be
  imported, \<^verbatim>\<open>pd.to_numeric(..., errors='coerce')\<close> on one entry, the model fitting
  and prediction of \<^verbatim>\<open>fairlearn_analysis\<close>, its \<^verbatim>\<open>MetricFrame\<close> and
  demographic-parity computation for one attribute (on the columns that carry the
  attribute's label), the explainability stage
  (\<^verbatim>\<open>ModelExplainer\<close> on top of SHAP), and the hallucination detector, whose result is
  taken to be a dictionary with an optional rate under \<^verbatim>\<open>summary\<close>. Each call that can
  raise returns a sum.
\<close>

record hallucination_results =
  hallucination_rate :: "rat option"
  hallucination_details :: ext_obj

record ('x, 'y, 'm, 'p) libraries =
  fairlearn_available :: bool
  to_numeric :: "string option \<Rightarrow> rat option"
  fit_predict :: "dataframe \<Rightarrow> string \<Rightarrow> string list \<Rightarrow> 'x \<Rightarrow> 'y \<Rightarrow> py_error + 'p"
  metric_frame :: "'p \<Rightarrow> column list \<Rightarrow> py_error + ext_obj \<times> ext_obj"
  explain :: "'m \<Rightarrow> 'x \<Rightarrow> py_error + ext_obj"
  comprehensive_analysis :: "string list \<Rightarrow> (string \<times> string) list option \<Rightarrow> py_error + hallucination_results"

text \<open>What the detector prints: lines of text, the group table, the ratio.\<close>

datatype printed =
    Line string
  | Group_table "(cell \<times> nat \<times> rat \<times> rat option) list"
  | Impact_ratio rat

definition quoted :: "string \<Rightarrow> string" where
  "quoted s = [CHR 0x27] @ s @ [CHR 0x27]"

text \<open>
  The attribute's column. When the attribute is \<^verbatim>\<open>age\<close> or \<^verbatim>\<open>income\<close> the loop
  reads \<^verbatim>\<open>temp_dataset[attr].dtype\<close>; otherwise \<^verbatim>\<open>groupby(attr)\<close> is the first to
  look the label up, and raises \<^verbatim>\<open>ValueError\<close> when two columns carry it.
\<close>

definition group_key :: "dataframe \<Rightarrow> string \<Rightarrow> py_error + column" where
  "group_key df attr =
     (case labelled df attr of
        [] \<Rightarrow> Inl (KeyError attr)
      | [c] \<Rightarrow> Inr c
      | c # d # cs \<Rightarrow>
          Inl (ValueError (''Grouper for '' @ [CHR 0x27] @ attr @ [CHR 0x27] @ '' not 1-dimensional'')))"

definition attr_column :: "dataframe \<Rightarrow> string \<Rightarrow> py_error + column" where
  "attr_column df attr =
     (if lower attr \<in> set [''age'', ''income''] then get_column df attr else group_key df attr)"

text \<open>
  The label column made numeric: a text column with exactly two distinct values is
  mapped to 0 and 1 in the order \<^verbatim>\<open>unique()\<close> gives them, a text column with any
  other number of distinct values gives \<open>None\<close> (the attribute is skipped), a
  numeric column is used as it is.
\<close>

fun resolve_label :: "col_data \<Rightarrow> rat option list option" where
  "resolve_label (Text vs) =
     (let unique_labels = unique vs
      in if length unique_labels = 2
         then Some (map (map_of [(unique_labels ! 0, 0), (unique_labels ! 1, 1)]) vs)
         else None)"
| "resolve_label (Numbers d vs) = Some vs"

text \<open>\<^verbatim>\<open>attr.lower() in ['age', 'income']\<close> and the column is of dtype object.\<close>

definition needs_conversion :: "string \<Rightarrow> col_data \<Rightarrow> bool" where
  "needs_conversion attr data = (lower attr \<in> set [''age'', ''income''] \<and> is_object data)"

fun converted_cells :: "(string option \<Rightarrow> rat option) \<Rightarrow> col_data \<Rightarrow> cell list" where
  "converted_cells to_num (Text vs) =
     map (\<lambda>v. case to_num v of None \<Rightarrow> NaN | Some r \<Rightarrow> Num r) vs"
| "converted_cells to_num (Numbers d vs) = cells_of (Numbers d vs)"

text \<open>The rows the grouping sees: the attribute's value and the label, row by row;
  after a conversion the rows whose attribute is missing are dropped.\<close>

definition attr_rows ::
  "(string option \<Rightarrow> rat option) \<Rightarrow> string \<Rightarrow> col_data \<Rightarrow> rat option list \<Rightarrow> (cell \<times> rat option) list" where
  "attr_rows to_num attr data labels =
     (if needs_conversion attr data
      then filter (\<lambda>(k, l). k \<noteq> NaN) (zip (converted_cells to_num data) labels)
      else zip (cells_of data) labels)"

text \<open>\<^verbatim>\<open>.round(4)\<close> on a column of doubles, as numpy computes it: multiply by
  \<open>10000\<close>, round to the nearest integer, divide by \<open>10000\<close>, each step a double
  operation. On an integer the result is the integer.\<close>

definition round4 :: "rat \<Rightarrow> rat" where
  "round4 x = float64 (of_int (round_half_even (float64 (x * 10000))) / 10000)"

text \<open>
  \<^verbatim>\<open>groupby(attr)[label].agg(['count', 'sum', 'mean']).round(4)\<close>: one group for each
  value of the attribute, rows with a missing attribute left out; a group counts and
  sums its labels that are not missing, and its mean is missing when it has none.
  The mean is the double quotient of the sum and the count; the sum is taken exactly,
  as it is for labels that are integers. pandas sorts the groups by value; the model
  lists them in order of first occurrence, which the maximum and minimum taken below
  do not see.
\<close>

definition group_labels :: "(cell \<times> rat option) list \<Rightarrow> cell \<Rightarrow> rat list" where
  "group_labels rows key = concat (map (\<lambda>(k, l). if k = key then (case l of None \<Rightarrow> [] | Some v \<Rightarrow> [v]) else []) rows)"

definition group_mean :: "rat list \<Rightarrow> rat option" where
  "group_mean ls =
     (if ls = [] then None else Some (float64 (sum_list ls / of_nat (length ls))))"

definition group_row :: "(cell \<times> rat option) list \<Rightarrow> cell \<Rightarrow> cell \<times> nat \<times> rat \<times> rat option" where
  "group_row rows key =
     (key, length (group_labels rows key), round4 (sum_list (group_labels rows key)),
      map_option round4 (group_mean (group_labels rows key)))"

definition group_stats :: "(cell \<times> rat option) list \<Rightarrow> (cell \<times> nat \<times> rat \<times> rat option) list" where
  "group_stats rows = map (group_row rows) (unique (filter (\<lambda>k. k \<noteq> NaN) (map fst rows)))"

text \<open>The approval rates that are not missing, and their \<^verbatim>\<open>max()\<close> and \<^verbatim>\<open>min()\<close>.\<close>

definition approval_rates :: "(cell \<times> nat \<times> rat \<times> rat option) list \<Rightarrow> rat list" where
  "approval_rates stats =
     concat (map (\<lambda>(key, total_cases, approvals, approval_rate).
        case approval_rate of None \<Rightarrow> [] | Some r \<Rightarrow> [r]) stats)"

fun max_rate :: "rat list \<Rightarrow> rat option" where
  "max_rate [] = None"
| "max_rate (r # rs) = Some (fold max rs r)"

fun min_rate :: "rat list \<Rightarrow> rat option" where
  "min_rate [] = None"
| "min_rate (r # rs) = Some (fold min rs r)"

definition warning_line :: string where
  "warning_line = ''WARNING: Potential bias detected! (Ratio < 0.8)''"

definition no_bias_line :: string where
  "no_bias_line = ''No significant bias detected (Ratio >= 0.8)''"

text \<open>Lines 72 to 83: the ratio and its verdict, printed only when the highest rate
  is above zero. The ratio is the double quotient of the two rates, and it is compared
  with the double that the literal \<^verbatim>\<open>0.8\<close> denotes.\<close>

definition disparate_impact :: "rat list \<Rightarrow> printed list" where
  "disparate_impact rates =
     (case (max_rate rates, min_rate rates) of
        (Some mx, Some mn) \<Rightarrow>
          if mx > 0
          then [Impact_ratio (float64 (mn / mx)),
                if float64 (mn / mx) < float64 (8 / 10)
                then Line warning_line else Line no_bias_line]
          else []
      | _ \<Rightarrow> [])"

text \<open>The body of the loop of \<^verbatim>\<open>basic_bias_analysis\<close> for one attribute.\<close>

definition analyse_attribute ::
  "(string option \<Rightarrow> rat option) \<Rightarrow> dataframe \<Rightarrow> string \<Rightarrow> string \<Rightarrow> py_error + printed list" where
  "analyse_attribute to_num dataset label_column attr =
     (case get_column dataset label_column of
        Inl e \<Rightarrow> Inl e
      | Inr label \<Rightarrow>
         (case resolve_label (col_data label) of
            None \<Rightarrow>
              Inr [Line (''--- Analysis for '' @ attr @ '' ---''),
                   Line (''Warning: Label column '' @ quoted label_column
                     @ '' has more than two unique string values or is non-numeric. ''
                     @ ''Skipping basic bias analysis for this attribute.'')]
          | Some labels \<Rightarrow>
             (case attr_column dataset attr of
                Inl e \<Rightarrow> Inl e
              | Inr a \<Rightarrow>
                  Inr ([Line (''--- Analysis for '' @ attr @ '' ---'')]
                    @ (if needs_conversion attr (col_data a)
                       then [Line (''Note: Converted '' @ quoted attr
                               @ '' to numeric for basic bias analysis.'')]
                       else [])
                    @ [Group_table (group_stats (attr_rows to_num attr (col_data a) labels))]
                    @ disparate_impact
                        (approval_rates (group_stats (attr_rows to_num attr (col_data a) labels)))))))"

fun basic_bias_loop ::
  "(string option \<Rightarrow> rat option) \<Rightarrow> dataframe \<Rightarrow> string \<Rightarrow> string list \<Rightarrow> printed list
     \<Rightarrow> py_error + printed list" where
  "basic_bias_loop to_num dataset label_column [] out = Inr out"
| "basic_bias_loop to_num dataset label_column (attr # attrs) out =
     (case analyse_attribute to_num dataset label_column attr of
        Inl e \<Rightarrow> Inl e
      | Inr lines \<Rightarrow> basic_bias_loop to_num dataset label_column attrs (out @ lines))"

text \<open>The detector: its fields, and what it has printed so far.\<close>

record ('x, 'y) bias_detector =
  bd_dataset :: dataframe
  bd_label_column :: string
  bd_protected_attributes :: "string list"
  bd_X_processed :: 'x
  bd_y_processed :: 'y
  bd_results :: "(string \<times> ext_obj) list"
  bd_printed :: "printed list"

text \<open>\<^verbatim>\<open>basic_bias_analysis\<close>: everything goes to the console, nothing into \<^verbatim>\<open>self.results\<close>.\<close>

definition basic_bias_analysis ::
  "('x, 'y, 'm, 'p) libraries \<Rightarrow> ('x, 'y) bias_detector \<Rightarrow> py_error + ('x, 'y) bias_detector" where
  "basic_bias_analysis lib self =
     (case basic_bias_loop (to_numeric lib) (bd_dataset self) (bd_label_column self)
             (bd_protected_attributes self)
             (bd_printed self @ [Line ''=== BASIC BIAS ANALYSIS ==='']) of
        Inl e \<Rightarrow> Inl e
      | Inr out \<Rightarrow> Inr (self\<lparr>bd_printed := out\<rparr>))"

fun fairlearn_loop ::
  "('x, 'y, 'm, 'p) libraries \<Rightarrow> dataframe \<Rightarrow> 'p \<Rightarrow> string list \<Rightarrow> (string \<times> ext_obj) list
     \<Rightarrow> py_error + (string \<times> ext_obj) list" where
  "fairlearn_loop lib dataset pred [] results = Inr results"
| "fairlearn_loop lib dataset pred (attr # attrs) results =
     (if labelled dataset attr = [] then Inl (KeyError attr)
      else (case metric_frame lib pred (labelled dataset attr) of
              Inl e \<Rightarrow> Inl e
            | Inr (by_group, dem_parity_diff) \<Rightarrow>
                fairlearn_loop lib dataset pred attrs
                  (dict_set (dict_set results (attr @ ''_fairlearn_metrics'') by_group)
                     (attr @ ''_demographic_parity_diff'') dem_parity_diff)))"

definition fairlearn_analysis ::
  "('x, 'y, 'm, 'p) libraries \<Rightarrow> ('x, 'y) bias_detector \<Rightarrow> py_error + ('x, 'y) bias_detector" where
  "fairlearn_analysis lib self =
     (if \<not> fairlearn_available lib
      then Inr (self\<lparr>bd_printed :=
                  bd_printed self @ [Line ''Fairlearn not available. Skipping advanced analysis.'']\<rparr>)
      else (case fit_predict lib (bd_dataset self) (bd_label_column self)
                   (bd_protected_attributes self) (bd_X_processed self) (bd_y_processed self) of
              Inl e \<Rightarrow> Inl e
            | Inr pred \<Rightarrow>
               (case fairlearn_loop lib (bd_dataset self) pred (bd_protected_attributes self)
                       (bd_results self) of
                  Inl e \<Rightarrow> Inl e
                | Inr results \<Rightarrow> Inr (self\<lparr>bd_results := results\<rparr>))))"

text \<open>\<^verbatim>\<open>BiasDetector(...)\<close> and \<^verbatim>\<open>generate_report\<close>, which returns \<^verbatim>\<open>self.results\<close>.\<close>

definition new_bias_detector ::
  "dataframe \<Rightarrow> string \<Rightarrow> string list \<Rightarrow> 'x \<Rightarrow> 'y \<Rightarrow> ('x, 'y) bias_detector" where
  "new_bias_detector dataset label_column protected_attributes X_processed y_processed =
     \<lparr>bd_dataset = dataset, bd_label_column = label_column,
      bd_protected_attributes = protected_attributes, bd_X_processed = X_processed,
      bd_y_processed = y_processed, bd_results = [], bd_printed = []\<rparr>"

definition generate_report ::
  "('x, 'y, 'm, 'p) libraries \<Rightarrow> ('x, 'y) bias_detector
     \<Rightarrow> py_error + (string \<times> ext_obj) list \<times> ('x, 'y) bias_detector" where
  "generate_report lib self =
     (case basic_bias_analysis lib (self\<lparr>bd_printed := bd_printed self @ [Line ''COMPREHENSIVE BIAS REPORT'']\<rparr>) of
        Inl e \<Rightarrow> Inl e
      | Inr self1 \<Rightarrow>
         (case fairlearn_analysis lib self1 of
            Inl e \<Rightarrow> Inl e
          | Inr self2 \<Rightarrow> Inr (bd_results self2, self2)))"

section \<open>The pipeline\<close>

text \<open>
  The value under one analysis key of the audit result: the empty dictionary the key
  starts with, the marker \<^verbatim>\<open>{'error': str(e)}\<close>, the marker \<^verbatim>\<open>{'skipped': ...}\<close>,
  or the stage's payload.
\<close>

datatype 'a stage = Empty_dict | Error_marker string | Skipped_marker string | Payload 'a

record dataset_info =
  info_shape :: "nat \<times> nat"
  info_columns :: "string list"
  info_label_column :: string
  info_protected_attributes :: "string list"

record summary =
  timestamp :: string
  overall_status :: string
  issues_found :: "string list"
  recommendations :: "string list"
  risk_level :: string

record audit_results =
  dataset_info :: dataset_info
  bias_analysis :: "(string \<times> ext_obj) list stage"
  explainability_analysis :: "ext_obj stage"
  privacy_analysis :: "privacy_results stage"
  hallucination_analysis :: "hallucination_results stage"

subsection \<open>\<^verbatim>\<open>_generate_summary\<close>\<close>

text \<open>\<^verbatim>\<open>'error' not in bias_results\<close>\<close>

fun no_error_key :: "(string \<times> ext_obj) list stage \<Rightarrow> bool" where
  "no_error_key Empty_dict = True"
| "no_error_key (Error_marker m) = False"
| "no_error_key (Skipped_marker m) = True"
| "no_error_key (Payload d) = (''error'' \<notin> set (map fst d))"

text \<open>\<^verbatim>\<open>[str(v) for v in bias_results.values()]\<close>\<close>

fun value_texts :: "(string \<times> ext_obj) list stage \<Rightarrow> string list" where
  "value_texts Empty_dict = []"
| "value_texts (Error_marker m) = [m]"
| "value_texts (Skipped_marker m) = [m]"
| "value_texts (Payload d) = map (\<lambda>(k, v). py_str v) d"

text \<open>The truth value of \<^verbatim>\<open>privacy_results.get('pii_detected')\<close>\<close>

fun pii_reported :: "privacy_results stage \<Rightarrow> bool" where
  "pii_reported (Payload p) = (pii_detected p \<noteq> [])"
| "pii_reported Empty_dict = False"
| "pii_reported (Error_marker m) = False"
| "pii_reported (Skipped_marker m) = False"

text \<open>\<^verbatim>\<open>hallucination_results.get('summary', {}).get('hallucination_rate', 0)\<close>\<close>

fun reported_rate :: "hallucination_results stage \<Rightarrow> rat" where
  "reported_rate (Payload h) = (case hallucination_rate h of None \<Rightarrow> 0 | Some r \<Rightarrow> r)"
| "reported_rate Empty_dict = 0"
| "reported_rate (Error_marker m) = 0"
| "reported_rate (Skipped_marker m) = 0"

definition check_bias :: "audit_results \<Rightarrow> summary \<Rightarrow> summary" where
  "check_bias audit summary =
     (if no_error_key (bias_analysis audit)
         \<and> list_ex (\<lambda>text. py_in ''WARNING'' text) (value_texts (bias_analysis audit))
      then summary\<lparr>issues_found := issues_found summary @ [''Potential bias detected''],
                   overall_status := ''FAILED'',
                   risk_level := ''HIGH''\<rparr>
      else summary)"

definition check_privacy :: "audit_results \<Rightarrow> summary \<Rightarrow> summary" where
  "check_privacy audit summary =
     (if pii_reported (privacy_analysis audit)
      then summary\<lparr>issues_found := issues_found summary @ [''PII detected in dataset''],
                   risk_level := ''MEDIUM''\<rparr>
      else summary)"

definition check_hallucination :: "audit_results \<Rightarrow> summary \<Rightarrow> summary" where
  "check_hallucination audit summary =
     (if reported_rate (hallucination_analysis audit) > 2 / 10
      then summary\<lparr>issues_found := issues_found summary @ [''High hallucination rate detected''],
                   overall_status := ''FAILED''\<rparr>
      else summary)"

definition add_recommendations :: "summary \<Rightarrow> summary" where
  "add_recommendations summary =
     (if issues_found summary \<noteq> []
      then summary\<lparr>recommendations :=
             [''Review and address identified bias patterns'',
              ''Implement data anonymization for PII'',
              ''Add fact-checking mechanisms for model outputs'',
              ''Consider retraining models with bias mitigation techniques'']\<rparr>
      else summary\<lparr>recommendations :=
             [''Continue monitoring for emerging ethical issues'',
              ''Regular re-auditing recommended'',
              ''Consider implementing continuous monitoring'']\<rparr>)"

text \<open>\<open>now\<close> is the text of \<^verbatim>\<open>pd.Timestamp.now().isoformat()\<close> at the call.\<close>

definition generate_summary :: "string \<Rightarrow> audit_results \<Rightarrow> summary" where
  "generate_summary now audit =
     add_recommendations
       (check_hallucination audit
         (check_privacy audit
           (check_bias audit
             \<lparr>timestamp = now, overall_status = ''PASSED'', issues_found = [],
              recommendations = [], risk_level = ''LOW''\<rparr>)))"

subsection \<open>\<^verbatim>\<open>run_full_audit\<close>\<close>

text \<open>\<^verbatim>\<open>try: ... except Exception as e: audit_results[key] = {'error': str(e)}\<close>\<close>

fun caught :: "py_error + 'a \<Rightarrow> 'a stage" where
  "caught (Inl e) = Error_marker (str_error e)"
| "caught (Inr payload) = Payload payload"

definition bias_stage ::
  "('x, 'y, 'm, 'p) libraries \<Rightarrow> dataframe \<Rightarrow> string \<Rightarrow> string list \<Rightarrow> 'x \<Rightarrow> 'y
     \<Rightarrow> py_error + (string \<times> ext_obj) list" where
  "bias_stage lib dataset label_column protected_attributes X_processed y_processed =
     (case generate_report lib
             (new_bias_detector dataset label_column protected_attributes X_processed y_processed) of
        Inl e \<Rightarrow> Inl e
      | Inr (report, detector) \<Rightarrow> Inr report)"

definition hallucination_stage ::
  "('x, 'y, 'm, 'p) libraries \<Rightarrow> string list option \<Rightarrow> (string \<times> string) list option
     \<Rightarrow> hallucination_results stage" where
  "hallucination_stage lib test_prompts reference_facts =
     (case test_prompts of
        None \<Rightarrow> Skipped_marker ''No test prompts provided''
      | Some prompts \<Rightarrow>
          if prompts = [] then Skipped_marker ''No test prompts provided''
          else caught (comprehensive_analysis lib prompts reference_facts))"

text \<open>The audit result with its summary, as \<^verbatim>\<open>run_full_audit\<close> returns it and keeps it
  in \<^verbatim>\<open>self.results\<close>.\<close>

record full_audit = audit_results +
  summary :: summary

definition initial_results :: "dataframe \<Rightarrow> string \<Rightarrow> string list \<Rightarrow> audit_results" where
  "initial_results dataset label_column protected_attributes =
     \<lparr>dataset_info =
        \<lparr>info_shape = (df_len dataset, length (df_columns dataset)),
         info_columns = map col_name (df_columns dataset),
         info_label_column = label_column,
         info_protected_attributes = protected_attributes\<rparr>,
      bias_analysis = Empty_dict,
      explainability_analysis = Empty_dict,
      privacy_analysis = Empty_dict,
      hallucination_analysis = Empty_dict\<rparr>"

definition run_stages ::
  "('x, 'y, 'm, 'p) libraries \<Rightarrow> dataframe \<Rightarrow> 'x \<Rightarrow> 'y \<Rightarrow> string \<Rightarrow> string list \<Rightarrow> 'm
     \<Rightarrow> string list option \<Rightarrow> (string \<times> string) list option \<Rightarrow> audit_results" where
  "run_stages lib dataset X_processed y_processed label_column protected_attributes model
       test_prompts reference_facts =
     (let audit0 = initial_results dataset label_column protected_attributes;
          audit1 = audit0\<lparr>bias_analysis :=
                     caught (bias_stage lib dataset label_column protected_attributes
                               X_processed y_processed)\<rparr>;
          audit2 = audit1\<lparr>explainability_analysis := caught (explain lib model X_processed)\<rparr>;
          audit3 = audit2\<lparr>privacy_analysis := caught (analyze_dataset dataset)\<rparr>;
          audit4 = audit3\<lparr>hallucination_analysis :=
                     hallucination_stage lib test_prompts reference_facts\<rparr>
      in audit4)"

definition run_full_audit ::
  "('x, 'y, 'm, 'p) libraries \<Rightarrow> string \<Rightarrow> dataframe \<Rightarrow> 'x \<Rightarrow> 'y \<Rightarrow> string \<Rightarrow> string list \<Rightarrow> 'm
     \<Rightarrow> string list option \<Rightarrow> (string \<times> string) list option \<Rightarrow> full_audit" where
  "run_full_audit lib now dataset X_processed y_processed label_column protected_attributes
       model test_prompts reference_facts =
     (let audit = run_stages lib dataset X_processed y_processed label_column
                    protected_attributes model test_prompts reference_facts
      in audit_results.extend audit
           (full_audit.fields (generate_summary now audit)))"

subsection \<open>\<^verbatim>\<open>generate_compliance_score\<close>\<close>

definition deduct :: "string \<Rightarrow> rat \<Rightarrow> rat" where
  "deduct issue score =
     (if py_in ''bias'' (lower issue) then score - 40
      else if py_in ''pii'' (lower issue) then score - 20
      else if py_in ''hallucination'' (lower issue) then score - 30
      else score)"

text \<open>\<open>results\<close> is \<^verbatim>\<open>self.results\<close>: \<open>None\<close> before the first audit (the empty
  dictionary), the last audit's result afterwards.\<close>

definition generate_compliance_score :: "full_audit option \<Rightarrow> rat" where
  "generate_compliance_score results =
     (case results of
        None \<Rightarrow> 0
      | Some audit \<Rightarrow> max 0 (fold deduct (issues_found (summary audit)) 100))"

section \<open>Specification-side definitions and sample inputs\<close>

text \<open>The weight the specification gives an issue text: 40 for bias, 20 for PII,
  30 for hallucination, chosen by the first keyword that occurs in it.\<close>

definition issue_weight :: "string \<Rightarrow> rat" where
  "issue_weight issue =
     (if py_in ''bias'' (lower issue) then 40
      else if py_in ''pii'' (lower issue) then 20
      else if py_in ''hallucination'' (lower issue) then 30
      else 0)"

text \<open>An audit of a dataset whose protected attribute \<^verbatim>\<open>alert\<close> has the groups
  \<^verbatim>\<open>OK\<close> and \<^verbatim>\<open>WARNING\<close>, so that the text of fairlearn's table by group contains
  \<^verbatim>\<open>WARNING\<close>, and whose column \<^verbatim>\<open>email\<close> holds an e-mail address.\<close>

definition biased_audit_with_pii :: audit_results where
  "biased_audit_with_pii =
     \<lparr>dataset_info = \<lparr>info_shape = (2, 3), info_columns = [''alert'', ''email'', ''label''],
         info_label_column = ''label'', info_protected_attributes = [''alert'']\<rparr>,
      bias_analysis =
        Payload [(''alert_fairlearn_metrics'', Ext ''selection_rate alert OK 0.0 WARNING 1.0''),
                 (''alert_demographic_parity_diff'', Ext ''1.0'')],
      explainability_analysis = Payload (Ext ''feature importance''),
      privacy_analysis = Payload \<lparr>pii_detected = [(''email'', [''email: 1 instances''])],
         quasi_identifiers = [], uniqueness_risk = [], privacy_recommendations = []\<rparr>,
      hallucination_analysis = Skipped_marker ''No test prompts provided''\<rparr>"

text \<open>A library environment without fairlearn, whose other calls succeed.\<close>

definition plain_libraries :: "(unit, unit, unit, unit) libraries" where
  "plain_libraries =
     \<lparr>fairlearn_available = False,
      to_numeric = (\<lambda>v. None),
      fit_predict = (\<lambda>dataset label_column attrs X y. Inr ()),
      metric_frame = (\<lambda>pred c. Inr (Ext ''selection_rate'', Ext ''0.0'')),
      explain = (\<lambda>model X. Inr (Ext ''feature importance'')),
      comprehensive_analysis = (\<lambda>prompts facts.
         Inr \<lparr>hallucination_rate = Some 0, hallucination_details = Ext ''ok''\<rparr>)\<rparr>"

text \<open>Four loan decisions: both men approved, one of the two women approved.\<close>

definition loans :: dataframe where
  "loans =
     \<lparr>df_len = 4,
      df_columns =
        [\<lparr>col_name = ''gender'', col_data = Text [Some ''M'', Some ''M'', Some ''F'', Some ''F'']\<rparr>,
         \<lparr>col_name = ''approved'', col_data = Numbers Int64 [Some 1, Some 1, Some 1, Some 0]\<rparr>]\<rparr>"



text \<open>A frame with a column named \<^verbatim>\<open>message\<close>.\<close>

definition inbox :: dataframe where
  "inbox =
     \<lparr>df_len = 2,
      df_columns =
        [\<lparr>col_name = ''message'', col_data = Text [Some ''hello'', Some ''see you'']\<rparr>,
         \<lparr>col_name = ''id'', col_data = Numbers Int64 [Some 1, Some 2]\<rparr>]\<rparr>"




text \<open>Nine decisions: three of the five in group A and three of the four in group B are
  positive, so the rates are 3/5 and 3/4 and their quotient is 4/5.\<close>

definition nine_decisions :: dataframe where
  "nine_decisions =
     \<lparr>df_len = 9,
      df_columns =
        [\<lparr>col_name = ''team'',
          col_data = Text [Some ''A'', Some ''A'', Some ''A'', Some ''A'', Some ''A'',
                           Some ''B'', Some ''B'', Some ''B'', Some ''B'']\<rparr>,
         \<lparr>col_name = ''approved'',
          col_data = Numbers Int64 [Some 1, Some 1, Some 1, Some 0, Some 0,
                                    Some 1, Some 1, Some 1, Some 0]\<rparr>]\<rparr>"

text \<open>Fifteen decisions: one of the three in group C and five of the twelve in group D
  are positive, so the rates are 1/3 and 5/12 and their quotient is 4/5.\<close>

definition fifteen_decisions :: dataframe where
  "fifteen_decisions =
     \<lparr>df_len = 15,
      df_columns =
        [\<lparr>col_name = ''team'',
          col_data = Text (replicate 3 (Some ''C'') @ replicate 12 (Some ''D''))\<rparr>,
         \<lparr>col_name = ''approved'',
          col_data = Numbers Int64 ([Some 1, Some 0, Some 0]
                       @ replicate 5 (Some 1) @ replicate 7 (Some 0))\<rparr>]\<rparr>"

text \<open>The items that cannot consume a space: a class repetition can when the space
  is in its class, as in the separators of the credit-card pattern.\<close>

fun no_space :: "rx \<Rightarrow> bool" where
  "no_space WordB = True"
| "no_space (Rep cls lo hi) = (\<not> in_class cls CHR '' '')"
| "no_space (Opt body) = list_all no_space body"

section \<open>Properties of the basic operations\<close>

lemma set_unique [simp]: "set (unique xs) = set xs"
  by (induction xs rule: unique.induct) auto

lemma distinct_unique [simp]: "distinct (unique xs)"
  by (induction xs rule: unique.induct) auto


lemma round_half_even_range: "\<lfloor>x\<rfloor> \<le> round_half_even x \<and> round_half_even x \<le> \<lfloor>x\<rfloor> + 1"
  by (simp add: round_half_even_def)

lemma round_half_even_of_int [simp]: "round_half_even (of_int n) = n"
  by (simp add: round_half_even_def)

lemma round_half_even_between:
  assumes "of_int a \<le> x" and "x \<le> of_int b"
  shows "a \<le> round_half_even x \<and> round_half_even x \<le> b"
proof -
  have lo: "a \<le> \<lfloor>x\<rfloor>" using assms(1) by (simp add: le_floor_iff)
  have hi: "round_half_even x \<le> b"
  proof (cases "x = of_int \<lfloor>x\<rfloor>")
    case True
    then have "round_half_even x = \<lfloor>x\<rfloor>"
      by (metis round_half_even_of_int)
    moreover have "\<lfloor>x\<rfloor> \<le> b" using assms(2) by (simp add: floor_le_iff)
    ultimately show ?thesis by simp
  next
    case False
    then have "of_int \<lfloor>x\<rfloor> < x" using of_int_floor_le [of x] by linarith
    with assms(2) have "of_int \<lfloor>x\<rfloor> < (of_int b :: rat)" by linarith
    then have "\<lfloor>x\<rfloor> + 1 \<le> b" by simp
    with round_half_even_range [of x] show ?thesis by linarith
  qed
  from lo hi round_half_even_range [of x] show ?thesis by linarith
qed

lemma round_half_even_mono:
  assumes "x \<le> y"
  shows "round_half_even x \<le> round_half_even y"
proof (cases "\<lfloor>x\<rfloor> = \<lfloor>y\<rfloor>")
  case True
  with assms have "x - of_int \<lfloor>x\<rfloor> \<le> y - of_int \<lfloor>y\<rfloor>" by simp
  with True show ?thesis by (auto simp: round_half_even_def)
next
  case False
  with assms have "\<lfloor>x\<rfloor> < \<lfloor>y\<rfloor>" using floor_mono [of x y] by linarith
  with round_half_even_range [of x] round_half_even_range [of y] show ?thesis by linarith
qed

lemma binade_bounds:
  assumes "0 < x"
  shows "2 powi binade x \<le> x \<and> x < 2 powi (binade x + 1)"
proof -
  obtain p q where pq: "quotient_of x = (p, q)" by (cases "quotient_of x")
  then have q: "0 < q" and x: "x = of_int p / of_int q"
    by (simp_all add: quotient_of_denom_pos quotient_of_div)
  with assms have p: "0 < p" by (simp add: zero_less_divide_iff)
  define bp where "bp = bitlen p"
  define bq where "bq = bitlen q"
  have bp1: "1 \<le> bp" and bq1: "1 \<le> bq"
    using p q bitlen_eq_zero_iff [of p] bitlen_eq_zero_iff [of q] bitlen_nonneg [of p]
      bitlen_nonneg [of q]
    unfolding bp_def bq_def by linarith+
  have ip: "2 ^ nat (bp - 1) \<le> p" "p < 2 ^ nat bp"
    and iq: "2 ^ nat (bq - 1) \<le> q" "q < 2 ^ nat bq"
    using bitlen_bounds [OF p] bitlen_bounds [OF q] unfolding bp_def bq_def by simp_all
  have rp: "(2::rat) powi (bp - 1) \<le> of_int p" "of_int p < (2::rat) powi bp"
  proof -
    have "(of_int (2 ^ nat (bp - 1)) :: rat) \<le> of_int p" using ip(1) by (simp only: of_int_le_iff)
    then show "(2::rat) powi (bp - 1) \<le> of_int p" using bp1 by (simp add: power_int_def)
    have "(of_int p :: rat) < of_int (2 ^ nat bp)" using ip(2) by (simp only: of_int_less_iff)
    then show "of_int p < (2::rat) powi bp" using bp1 by (simp add: power_int_def)
  qed
  have rq: "(2::rat) powi (bq - 1) \<le> of_int q" "of_int q < (2::rat) powi bq"
  proof -
    have "(of_int (2 ^ nat (bq - 1)) :: rat) \<le> of_int q" using iq(1) by (simp only: of_int_le_iff)
    then show "(2::rat) powi (bq - 1) \<le> of_int q" using bq1 by (simp add: power_int_def)
    have "(of_int q :: rat) < of_int (2 ^ nat bq)" using iq(2) by (simp only: of_int_less_iff)
    then show "of_int q < (2::rat) powi bq" using bq1 by (simp add: power_int_def)
  qed
  have qpos: "(0::rat) < of_int q" using q by simp
  have upper: "x < 2 powi (bp - bq + 1)"
  proof -
    have "x * of_int q = of_int p" using x qpos by simp
    also have "\<dots> < 2 powi bp" by (rule rp(2))
    also have "\<dots> = (2::rat) powi (bp - bq + 1) * 2 powi (bq - 1)"
      by (simp flip: power_int_add)
    also have "\<dots> \<le> 2 powi (bp - bq + 1) * of_int q"
      using rq(1) by (intro mult_left_mono) simp_all
    finally show ?thesis using qpos by simp
  qed
  have lower: "2 powi (bp - bq - 1) \<le> x"
  proof -
    have "(2::rat) powi (bp - bq - 1) * of_int q \<le> 2 powi (bp - bq - 1) * 2 powi bq"
      using rq(2) by (intro mult_left_mono) simp_all
    also have "\<dots> = 2 powi (bp - 1)"
      by (simp flip: power_int_add)
    also have "\<dots> \<le> of_int p" by (rule rp(1))
    also have "\<dots> = x * of_int q" using x qpos by simp
    finally show ?thesis using qpos by simp
  qed
  show ?thesis
  proof (cases "2 powi (bp - bq) \<le> x")
    case True
    then have "binade x = bp - bq" by (simp add: binade_def pq bp_def bq_def)
    with True upper show ?thesis by simp
  next
    case False
    then have b: "binade x = bp - bq - 1" by (simp add: binade_def pq bp_def bq_def)
    from False have "x < 2 powi (bp - bq - 1 + 1)" by simp
    with lower b show ?thesis by simp
  qed
qed

lemma binade_mono:
  assumes "0 < x" and "x \<le> y"
  shows "binade x \<le> binade y"
proof (rule ccontr)
  assume "\<not> binade x \<le> binade y"
  then have "binade y + 1 \<le> binade x" by simp
  then have "(2::rat) powi (binade y + 1) \<le> 2 powi binade x"
    by (intro power_int_increasing) simp_all
  with binade_bounds [OF assms(1)] binade_bounds [of y] assms show False by linarith
qed

lemma float64_zero [simp]: "float64 0 = 0"
  by (simp add: float64_def)

lemma float64_pos:
  assumes "0 < x"
  shows "float64 x = of_int (round_half_even (x / 2 powi (binade x - 52))) * 2 powi (binade x - 52)"
  using assms by (simp add: float64_def)

lemma float64_binade:
  assumes "0 < x"
  shows "2 powi binade x \<le> float64 x \<and> float64 x \<le> 2 powi (binade x + 1)"
proof -
  define u :: rat where "u = 2 powi (binade x - 52)"
  have u: "0 < u" by (simp add: u_def)
  have e: "2 powi binade x = 2 ^ 52 * u" "2 powi (binade x + 1) = 2 ^ 53 * u"
    unfolding u_def by (simp_all add: power_int_diff power_int_add)
  from binade_bounds [OF assms] have "2 ^ 52 * u \<le> x" "x \<le> 2 ^ 53 * u"
    unfolding e by simp_all
  with u have "(2 ^ 52 :: rat) \<le> x / u" "x / u \<le> 2 ^ 53"
    by (simp_all add: pos_le_divide_eq pos_divide_le_eq)
  then have "of_int (2 ^ 52) \<le> x / u" "x / u \<le> of_int (2 ^ 53)"
    by simp_all
  from round_half_even_between [OF this]
  have "2 ^ 52 \<le> round_half_even (x / u)" "round_half_even (x / u) \<le> 2 ^ 53"
    by simp_all
  then have "(of_int (2 ^ 52) :: rat) \<le> of_int (round_half_even (x / u))"
    "(of_int (round_half_even (x / u)) :: rat) \<le> of_int (2 ^ 53)"
    by (simp_all only: of_int_le_iff)
  then have "2 ^ 52 * u \<le> of_int (round_half_even (x / u)) * u"
    "of_int (round_half_even (x / u)) * u \<le> 2 ^ 53 * u"
    using u by (simp_all add: mult_right_mono)
  then show ?thesis
    unfolding e float64_pos [OF assms] u_def by simp
qed

lemma float64_nonneg: "0 \<le> x \<Longrightarrow> 0 \<le> float64 x"
proof (cases "x = 0")
  case True
  then show ?thesis by simp
next
  case False
  assume "0 \<le> x"
  with False have "0 < x" by simp
  from float64_binade [OF this] have "2 powi binade x \<le> float64 x" ..
  moreover have "(0::rat) < 2 powi binade x" by simp
  ultimately show ?thesis by linarith
qed

lemma float64_mono:
  assumes "0 \<le> x" and "x \<le> y"
  shows "float64 x \<le> float64 y"
proof (cases "x = 0")
  case True
  with assms show ?thesis by (simp add: float64_nonneg)
next
  case False
  with assms have x: "0 < x" and y: "0 < y" by simp_all
  from binade_mono [OF x assms(2)] consider "binade x = binade y" | "binade x + 1 \<le> binade y"
    by linarith
  then show ?thesis
  proof cases
    case 1
    have u: "(0::rat) < 2 powi (binade y - 52)" by simp
    from assms(2) have "x / 2 powi (binade y - 52) \<le> y / 2 powi (binade y - 52)"
      by (intro divide_right_mono) simp_all
    from round_half_even_mono [OF this]
    have "(of_int (round_half_even (x / 2 powi (binade y - 52))) :: rat)
        \<le> of_int (round_half_even (y / 2 powi (binade y - 52)))"
      by (simp only: of_int_le_iff)
    then show ?thesis
      unfolding float64_pos [OF x] float64_pos [OF y] 1 by (intro mult_right_mono) simp_all
  next
    case 2
    then have "(2::rat) powi (binade x + 1) \<le> 2 powi binade y"
      by (intro power_int_increasing) simp_all
    with float64_binade [OF x] float64_binade [OF y] show ?thesis by linarith
  qed
qed

lemma float64_values: "float64 1 = 1" "float64 10000 = 10000"
  by code_simp+

lemma float64_unit:
  assumes "0 \<le> x" and "x \<le> 1"
  shows "0 \<le> float64 x \<and> float64 x \<le> 1"
  using float64_nonneg [OF assms(1)] float64_mono [OF assms] by (simp add: float64_values)

lemma round4_unit:
  assumes "0 \<le> x" and "x \<le> 1"
  shows "0 \<le> round4 x \<and> round4 x \<le> 1"
proof -
  have a: "0 \<le> x * 10000" "x * 10000 \<le> 10000" using assms by simp_all
  have "0 \<le> float64 (x * 10000)" "float64 (x * 10000) \<le> 10000"
    using float64_nonneg [OF a(1)] float64_mono [OF a] by (simp_all add: float64_values)
  then have "of_int 0 \<le> float64 (x * 10000)" "float64 (x * 10000) \<le> of_int 10000"
    by simp_all
  from round_half_even_between [OF this]
  have "(of_int 0 :: rat) \<le> of_int (round_half_even (float64 (x * 10000)))"
    "(of_int (round_half_even (float64 (x * 10000))) :: rat) \<le> of_int 10000"
    by (simp_all only: of_int_le_iff)
  then have "0 \<le> of_int (round_half_even (float64 (x * 10000))) / (10000::rat)"
    "of_int (round_half_even (float64 (x * 10000))) / (10000::rat) \<le> 1"
    by simp_all
  from float64_unit [OF this] show ?thesis by (simp add: round4_def)
qed

lemma double_0_8: "float64 (8 / 10) = 7205759403792794 / 9007199254740992"
  by code_simp

lemma below_double_0_8:
  assumes "0 \<le> x"
  shows "float64 x < float64 (8 / 10) \<longleftrightarrow> float64 x < 8 / 10"
proof
  assume "float64 x < 8 / 10"
  then show "float64 x < float64 (8 / 10)" unfolding double_0_8 by simp
next
  assume less: "float64 x < float64 (8 / 10)"
  show "float64 x < 8 / 10"
  proof (cases "x = 0")
    case True
    then show ?thesis by simp
  next
    case False
    with assms have x: "0 < x" by simp
    consider "0 \<le> binade x" | "binade x \<le> - 2" | "binade x = - 1" by linarith
    then show ?thesis
    proof cases
      case 1
      then have "(2::rat) powi 0 \<le> 2 powi binade x"
        by (intro power_int_increasing) simp_all
      with float64_binade [OF x] have "1 \<le> float64 x" by simp
      with less show ?thesis unfolding double_0_8 by simp
    next
      case 2
      then have "(2::rat) powi (binade x + 1) \<le> 2 powi (- 1)"
        by (intro power_int_increasing) simp_all
      with float64_binade [OF x] have "float64 x \<le> 1 / 2" by (simp add: power_int_minus)
      then show ?thesis by simp
    next
      case 3
      define m where "m = round_half_even (x / 2 powi (binade x - 52))"
      have u: "(2::rat) powi (binade x - 52) = 1 / 9007199254740992"
        unfolding 3 by (simp add: power_int_minus)
      have z: "float64 x = of_int m / 9007199254740992"
        by (simp add: float64_pos [OF x] m_def u)
      from less have "(of_int m :: rat) < of_int 7205759403792794"
        unfolding z double_0_8 by simp
      then have "m < 7205759403792794" by (simp only: of_int_less_iff)
      then have "m \<le> 7205759403792793" by simp
      then have "(of_int m :: rat) \<le> of_int 7205759403792793" by (simp only: of_int_le_iff)
      then show ?thesis unfolding z by simp
    qed
  qed
qed

section \<open>Properties of the pipeline\<close>

lemma fold_deduct: "fold deduct issues score = score - sum_list (map issue_weight issues)"
  by (induction issues arbitrary: score) (simp_all add: deduct_def issue_weight_def)

lemma lower_literals:
  "lower ''Potential bias detected'' = ''potential bias detected''"
  "lower ''PII detected in dataset'' = ''pii detected in dataset''"
  by (simp_all add: lower_def lower_char_def)

lemma weight_literals:
  "issue_weight ''Potential bias detected'' = 40"
  "issue_weight ''PII detected in dataset'' = 20"
  by (simp_all add: issue_weight_def lower_literals)

text \<open>
  C6. The compliance score of an audit is 100 minus the sum of the weights of its
  issue texts, floored at 0. With no issue it is 100, with the issues
  \<^verbatim>\<open>["Potential bias detected", "PII detected in dataset"]\<close> it is 40, and it is never
  negative, whatever \<^verbatim>\<open>self.results\<close> holds.
\<close>

theorem compliance_score_formula:
  "generate_compliance_score (Some audit)
     = max 0 (100 - sum_list (map issue_weight (issues_found (summary audit))))
   \<and> generate_compliance_score
        (Some (audit\<lparr>summary := (summary audit)\<lparr>issues_found := []\<rparr>\<rparr>)) = 100
   \<and> generate_compliance_score
        (Some (audit\<lparr>summary := (summary audit)\<lparr>issues_found :=
           [''Potential bias detected'', ''PII detected in dataset'']\<rparr>\<rparr>)) = 40
   \<and> 0 \<le> generate_compliance_score results"
proof -
  have formula: "generate_compliance_score (Some a)
      = max 0 (100 - sum_list (map issue_weight (issues_found (summary a))))" for a
    by (simp add: generate_compliance_score_def fold_deduct)
  have "0 \<le> generate_compliance_score results"
    by (cases results) (simp_all add: generate_compliance_score_def)
  then show ?thesis
    unfolding formula by (simp add: weight_literals)
qed

lemma check_risk_level:
  "risk_level (check_hallucination audit s) = risk_level s"
  "risk_level (add_recommendations s) = risk_level s"
  by (simp_all add: check_hallucination_def add_recommendations_def)

text \<open>Whatever the bias check found, reported PII leaves the risk tier at MEDIUM.\<close>

lemma pii_sets_risk_to_medium:
  "pii_reported (privacy_analysis audit) \<Longrightarrow> risk_level (generate_summary now audit) = ''MEDIUM''"
  by (simp add: generate_summary_def check_risk_level check_privacy_def)

text \<open>
  C1. On an audit whose bias payload signals a warning and whose privacy payload reports
  PII, the bias check sets the risk tier to HIGH, and the summary that
  \<^verbatim>\<open>_generate_summary\<close> returns has the risk tier MEDIUM: the privacy check
  assigns MEDIUM whatever the tier was.
\<close>

theorem pii_downgrades_high_risk:
  "risk_level (check_bias biased_audit_with_pii
      \<lparr>timestamp = now, overall_status = ''PASSED'', issues_found = [],
        recommendations = [], risk_level = ''LOW''\<rparr>) = ''HIGH''
   \<and> risk_level (generate_summary now biased_audit_with_pii) = ''MEDIUM''
   \<and> issues_found (generate_summary now biased_audit_with_pii)
        = [''Potential bias detected'', ''PII detected in dataset'']"
  by (simp add: generate_summary_def check_bias_def check_privacy_def check_hallucination_def
      add_recommendations_def biased_audit_with_pii_def)

lemma check_clock:
  "check_bias audit (s\<lparr>timestamp := t\<rparr>) = (check_bias audit s)\<lparr>timestamp := t\<rparr>"
  "check_privacy audit (s\<lparr>timestamp := t\<rparr>) = (check_privacy audit s)\<lparr>timestamp := t\<rparr>"
  "check_hallucination audit (s\<lparr>timestamp := t\<rparr>) = (check_hallucination audit s)\<lparr>timestamp := t\<rparr>"
  "add_recommendations (s\<lparr>timestamp := t\<rparr>) = (add_recommendations s)\<lparr>timestamp := t\<rparr>"
  by (simp_all add: check_bias_def check_privacy_def check_hallucination_def
      add_recommendations_def)

lemma check_timestamp:
  "timestamp (check_bias audit s) = timestamp s"
  "timestamp (check_privacy audit s) = timestamp s"
  "timestamp (check_hallucination audit s) = timestamp s"
  "timestamp (add_recommendations s) = timestamp s"
  by (simp_all add: check_bias_def check_privacy_def check_hallucination_def
      add_recommendations_def)

lemma timestamp_generate_summary: "timestamp (generate_summary now audit) = now"
  by (simp add: generate_summary_def check_timestamp)

lemma generate_summary_clock:
  "generate_summary now' audit = (generate_summary now audit)\<lparr>timestamp := now'\<rparr>"
proof -
  have "\<lparr>timestamp = now', overall_status = ''PASSED'', issues_found = [],
          recommendations = [], risk_level = ''LOW''\<rparr>
      = \<lparr>timestamp = now, overall_status = ''PASSED'', issues_found = [],
          recommendations = [], risk_level = ''LOW''\<rparr>\<lparr>timestamp := now'\<rparr>"
    by simp
  then show ?thesis
    unfolding generate_summary_def by (simp only: check_clock)
qed

lemma summary_run_full_audit:
  "summary (run_full_audit lib now dataset X y label_column attrs model prompts facts)
     = generate_summary now (run_stages lib dataset X y label_column attrs model prompts facts)"
  by (simp add: run_full_audit_def Let_def audit_results.defs full_audit.defs)

text \<open>
  C2, as stated, fails: two runs of the orchestrator on the same inputs at different
  moments return summaries that differ, because the summary records the time of the run.
\<close>

theorem summaries_of_two_runs_differ:
  "summary (run_full_audit plain_libraries ''2026-11-04T10:00:00'' loans () ()
              ''approved'' [''gender''] () None None)
   \<noteq> summary (run_full_audit plain_libraries ''2026-11-04T10:00:07'' loans () ()
              ''approved'' [''gender''] () None None)"
proof
  assume "summary (run_full_audit plain_libraries ''2026-11-04T10:00:00'' loans () ()
              ''approved'' [''gender''] () None None)
   = summary (run_full_audit plain_libraries ''2026-11-04T10:00:07'' loans () ()
              ''approved'' [''gender''] () None None)"
  then have "timestamp (summary (run_full_audit plain_libraries ''2026-11-04T10:00:00'' loans () ()
              ''approved'' [''gender''] () None None))
   = timestamp (summary (run_full_audit plain_libraries ''2026-11-04T10:00:07'' loans () ()
              ''approved'' [''gender''] () None None))"
    by simp
  then show False
    by (simp add: summary_run_full_audit timestamp_generate_summary)
qed

text \<open>
  C2, amended. Two runs of the orchestrator on the same inputs with the same
  (deterministic) libraries return summaries that agree in every field but the
  timestamp, and the same compliance score.
\<close>

theorem rerun_changes_only_timestamp:
  "summary (run_full_audit lib now' dataset X y label_column attrs model prompts facts)
     = (summary (run_full_audit lib now dataset X y label_column attrs model prompts facts))
         \<lparr>timestamp := now'\<rparr>
   \<and> generate_compliance_score
        (Some (run_full_audit lib now' dataset X y label_column attrs model prompts facts))
     = generate_compliance_score
        (Some (run_full_audit lib now dataset X y label_column attrs model prompts facts))"
proof -
  have s: "summary (run_full_audit lib now' dataset X y label_column attrs model prompts facts)
     = (summary (run_full_audit lib now dataset X y label_column attrs model prompts facts))
         \<lparr>timestamp := now'\<rparr>"
    unfolding summary_run_full_audit by (rule generate_summary_clock)
  show ?thesis
    using s by (simp add: generate_compliance_score_def)
qed

lemma run_stages_fields:
  "bias_analysis (run_stages lib dataset X y label_column attrs model prompts facts)
     = caught (bias_stage lib dataset label_column attrs X y)"
  "explainability_analysis (run_stages lib dataset X y label_column attrs model prompts facts)
     = caught (explain lib model X)"
  "privacy_analysis (run_stages lib dataset X y label_column attrs model prompts facts)
     = caught (analyze_dataset dataset)"
  "hallucination_analysis (run_stages lib dataset X y label_column attrs model prompts facts)
     = hallucination_stage lib prompts facts"
  by (simp_all add: run_stages_def Let_def)

lemma run_full_audit_more:
  "audit_results.truncate (run_full_audit lib now dataset X y label_column attrs model prompts facts)
     = run_stages lib dataset X y label_column attrs model prompts facts"
  by (simp add: run_full_audit_def Let_def audit_results.defs full_audit.defs)

lemma run_full_audit_fields:
  "bias_analysis (run_full_audit lib now dataset X y label_column attrs model prompts facts)
     = bias_analysis (run_stages lib dataset X y label_column attrs model prompts facts)"
  "explainability_analysis (run_full_audit lib now dataset X y label_column attrs model prompts facts)
     = explainability_analysis (run_stages lib dataset X y label_column attrs model prompts facts)"
  "privacy_analysis (run_full_audit lib now dataset X y label_column attrs model prompts facts)
     = privacy_analysis (run_stages lib dataset X y label_column attrs model prompts facts)"
  "hallucination_analysis (run_full_audit lib now dataset X y label_column attrs model prompts facts)
     = hallucination_analysis (run_stages lib dataset X y label_column attrs model prompts facts)"
  by (simp_all add: run_full_audit_def Let_def audit_results.defs full_audit.defs)

lemma caught_not_empty: "caught r \<noteq> Empty_dict"
  by (cases r) simp_all

lemma hallucination_stage_not_empty: "hallucination_stage lib prompts facts \<noteq> Empty_dict"
  by (simp add: hallucination_stage_def caught_not_empty split: option.splits)

text \<open>
  C8. Whatever the four stages do, the orchestrator returns a result in which each
  analysis key holds the error marker with the exception's text when its stage raised
  and the stage's payload otherwise (for the hallucination stage also the marker of
  a skipped stage), each stage's entry depends on that stage alone, and the summary is
  derived from these four entries.
\<close>

theorem stage_failures_are_isolated:
  "bias_analysis (run_full_audit lib now dataset X y label_column attrs model prompts facts)
     = (case bias_stage lib dataset label_column attrs X y of
          Inl e \<Rightarrow> Error_marker (str_error e) | Inr report \<Rightarrow> Payload report)
   \<and> explainability_analysis
       (run_full_audit lib now dataset X y label_column attrs model prompts facts)
     = (case explain lib model X of
          Inl e \<Rightarrow> Error_marker (str_error e) | Inr explanation \<Rightarrow> Payload explanation)
   \<and> privacy_analysis (run_full_audit lib now dataset X y label_column attrs model prompts facts)
     = (case analyze_dataset dataset of
          Inl e \<Rightarrow> Error_marker (str_error e) | Inr findings \<Rightarrow> Payload findings)
   \<and> hallucination_analysis
       (run_full_audit lib now dataset X y label_column attrs model prompts facts)
     = (case prompts of
          None \<Rightarrow> Skipped_marker ''No test prompts provided''
        | Some ps \<Rightarrow>
            if ps = [] then Skipped_marker ''No test prompts provided''
            else (case comprehensive_analysis lib ps facts of
                    Inl e \<Rightarrow> Error_marker (str_error e) | Inr verdict \<Rightarrow> Payload verdict))
   \<and> summary (run_full_audit lib now dataset X y label_column attrs model prompts facts)
     = generate_summary now
         (audit_results.truncate
            (run_full_audit lib now dataset X y label_column attrs model prompts facts))"
proof -
  have c: "caught r = (case r of Inl e \<Rightarrow> Error_marker (str_error e) | Inr p \<Rightarrow> Payload p)"
    for r :: "py_error + 'z"
    by (cases r) simp_all
  have h: "hallucination_stage lib prompts facts
     = (case prompts of
          None \<Rightarrow> Skipped_marker ''No test prompts provided''
        | Some ps \<Rightarrow>
            if ps = [] then Skipped_marker ''No test prompts provided''
            else (case comprehensive_analysis lib ps facts of
                    Inl e \<Rightarrow> Error_marker (str_error e) | Inr verdict \<Rightarrow> Payload verdict))"
    by (simp add: hallucination_stage_def c split: option.splits)
  show ?thesis
    unfolding run_full_audit_fields run_stages_fields summary_run_full_audit run_full_audit_more
      h c
    by (intro conjI refl)
qed

lemma bias_stage_missing_attribute:
  "bias_stage plain_libraries loans ''approved'' [''region''] () ()
     = Inl (KeyError ''region'')"
  by code_simp

lemma privacy_loans:
  "analyze_dataset loans
     = Inr \<lparr>pii_detected = [], quasi_identifiers = [''gender''],
         uniqueness_risk = [(''gender'', 1 / 2), (''approved'', 1 / 2), (''combination_2-3_cols'', 3 / 4)],
         privacy_recommendations =
           [''Apply k-anonymity or l-diversity to quasi-identifiers'',
            ''Consider generalization/suppression of sensitive attributes'',
            ''Implement differential privacy for model training'',
            ''Use secure multi-party computation for sensitive data'',
            ''Regular privacy audits and monitoring'']\<rparr>"
  by code_simp

lemma explain_plain: "explain plain_libraries model X = Inr (Ext ''feature importance'')"
  by (simp add: plain_libraries_def)

text \<open>
  The scenario of the specification: the protected attribute is not a column of the
  dataset, the bias stage raises \<^verbatim>\<open>KeyError\<close>, and the other stages are recorded as usual.
\<close>

theorem stage_failures_are_isolated_witness:
  "bias_analysis (run_full_audit plain_libraries ''2026-11-04T10:00:00'' loans () ()
       ''approved'' [''region''] () None None)
     = Error_marker (quoted ''region'')
   \<and> explainability_analysis (run_full_audit plain_libraries ''2026-11-04T10:00:00''
       loans () () ''approved'' [''region''] () None None)
     = Payload (Ext ''feature importance'')
   \<and> privacy_analysis (run_full_audit plain_libraries ''2026-11-04T10:00:00''
       loans () () ''approved'' [''region''] () None None)
     = Payload \<lparr>pii_detected = [], quasi_identifiers = [''gender''],
         uniqueness_risk = [(''gender'', 1 / 2), (''approved'', 1 / 2), (''combination_2-3_cols'', 3 / 4)],
         privacy_recommendations =
           [''Apply k-anonymity or l-diversity to quasi-identifiers'',
            ''Consider generalization/suppression of sensitive attributes'',
            ''Implement differential privacy for model training'',
            ''Use secure multi-party computation for sensitive data'',
            ''Regular privacy audits and monitoring'']\<rparr>
   \<and> hallucination_analysis (run_full_audit plain_libraries ''2026-11-04T10:00:00''
       loans () () ''approved'' [''region''] () None None)
     = Skipped_marker ''No test prompts provided''"
  using stage_failures_are_isolated [of plain_libraries "''2026-11-04T10:00:00''"
      loans "()" "()" "''approved''" "[''region'']" "()" None None]
  by (simp add: bias_stage_missing_attribute privacy_loans explain_plain quoted_def)

section \<open>Properties of the privacy analyzer\<close>


lemma set_found_columns:
  "set (concat (map (\<lambda>(qi_type, keywords). found_columns keywords names) qi))
     = {col \<in> set names. list_ex (\<lambda>keyword. py_in keyword (lower col)) (concat (map snd qi))}"
  by (induction qi) (auto simp: found_columns_def name_has_keyword_def)

lemma message_has_keyword:
  "list_ex (\<lambda>keyword. py_in keyword (lower ''message'')) (concat (map snd potential_qi))"
  by (simp add: potential_qi_def lower_def lower_char_def)

text \<open>
  C10. The quasi-identifiers reported for a frame are exactly its column names that,
  in lower case, contain a keyword of the taxonomy; the list has no duplicates; a
  column named \<^verbatim>\<open>message\<close> is reported (it contains \<^verbatim>\<open>age\<close>); and two frames with the
  same column names get the same report, whatever their columns hold.
\<close>

theorem quasi_identifiers_by_name:
  "set (detect_quasi_identifiers df)
     = {col \<in> set (map col_name (df_columns df)).
          list_ex (\<lambda>keyword. py_in keyword (lower col)) (concat (map snd potential_qi))}
   \<and> distinct (detect_quasi_identifiers df)
   \<and> (''message'' \<in> set (map col_name (df_columns df))
        \<longrightarrow> ''message'' \<in> set (detect_quasi_identifiers df))
   \<and> (map col_name (df_columns df') = map col_name (df_columns df)
        \<longrightarrow> detect_quasi_identifiers df' = detect_quasi_identifiers df)"
proof -
  have s: "set (detect_quasi_identifiers df)
     = {col \<in> set (map col_name (df_columns df)).
          list_ex (\<lambda>keyword. py_in keyword (lower col)) (concat (map snd potential_qi))}"
    unfolding detect_quasi_identifiers_def by (simp only: set_unique set_found_columns)
  have d: "distinct (detect_quasi_identifiers df)"
    by (simp add: detect_quasi_identifiers_def)
  have m: "''message'' \<in> set (detect_quasi_identifiers df)"
    if "''message'' \<in> set (map col_name (df_columns df))"
    unfolding s using that message_has_keyword by simp
  have c: "detect_quasi_identifiers df' = detect_quasi_identifiers df"
    if "map col_name (df_columns df') = map col_name (df_columns df)"
    using that by (simp add: detect_quasi_identifiers_def)
  from s d m c show ?thesis by blast
qed

lemma inbox_names: "map col_name (df_columns inbox) = [''message'', ''id'']"
  by (simp add: inbox_def)

lemma inbox_detected: "detect_quasi_identifiers inbox = [''message'']"
  by code_simp

theorem quasi_identifiers_by_name_witness:
  "''message'' \<in> set (map col_name (df_columns inbox))
   \<and> ''message'' \<in> set (detect_quasi_identifiers inbox)
   \<and> detect_quasi_identifiers inbox = [''message'']"
proof -
  have n: "''message'' \<in> set (map col_name (df_columns inbox))"
    by (simp add: inbox_names)
  from quasi_identifiers_by_name [of inbox inbox] n
  have "''message'' \<in> set (detect_quasi_identifiers inbox)" by blast
  with n inbox_detected show ?thesis by simp
qed




















section \<open>Properties of the bias detector\<close>

lemma basic_bias_analysis_results:
  "basic_bias_analysis lib self = Inr self' \<Longrightarrow> bd_results self' = bd_results self"
  by (auto simp: basic_bias_analysis_def split: sum.splits)

lemma report_without_fairlearn:
  assumes "\<not> fairlearn_available lib" and "generate_report lib self = Inr (report, self')"
  shows "report = bd_results self"
proof -
  from assms(2) obtain self1 where
    b: "basic_bias_analysis lib (self\<lparr>bd_printed := bd_printed self @ [Line ''COMPREHENSIVE BIAS REPORT'']\<rparr>) = Inr self1"
    and f: "fairlearn_analysis lib self1 = Inr self'" and r: "report = bd_results self'"
    by (auto simp: generate_report_def split: sum.splits)
  from f assms(1) have "bd_results self' = bd_results self1"
    by (auto simp: fairlearn_analysis_def)
  with basic_bias_analysis_results [OF b] r show ?thesis by simp
qed

lemma loans_group_stats:
  "analyse_attribute (\<lambda>v. None) loans ''approved'' ''gender''
     = Inr [Line ''--- Analysis for gender ---'',
            Group_table [(Str ''M'', 2, 2, Some 1), (Str ''F'', 2, 1, Some (1 / 2))],
            Impact_ratio (1 / 2),
            Line ''WARNING: Potential bias detected! (Ratio < 0.8)'']"
  by code_simp

text \<open>
  C5. On four loan decisions with the protected attribute \<^verbatim>\<open>gender\<close> (fairlearn absent),
  the detector prints the group table, the ratio 1/2 and the warning, and
  \<^verbatim>\<open>generate_report\<close> returns the empty dictionary: the payload has neither the group
  statistics nor the ratio nor the flag, and the orchestrator, which looks for the
  warning in the payload, reports no issue.
\<close>

theorem report_payload_omits_group_statistics:
  "generate_report plain_libraries (new_bias_detector loans ''approved'' [''gender''] () ())
     = Inr ([], (new_bias_detector loans ''approved'' [''gender''] () ())
         \<lparr>bd_printed :=
            [Line ''COMPREHENSIVE BIAS REPORT'',
             Line ''=== BASIC BIAS ANALYSIS ==='',
             Line ''--- Analysis for gender ---'',
             Group_table [(Str ''M'', 2, 2, Some 1), (Str ''F'', 2, 1, Some (1 / 2))],
             Impact_ratio (1 / 2),
             Line ''WARNING: Potential bias detected! (Ratio < 0.8)'',
             Line ''Fairlearn not available. Skipping advanced analysis.'']\<rparr>)
   \<and> bias_analysis (run_full_audit plain_libraries ''2026-11-04T10:00:00'' loans () ()
        ''approved'' [''gender''] () None None) = Payload []
   \<and> issues_found (summary (run_full_audit plain_libraries ''2026-11-04T10:00:00'' loans () ()
        ''approved'' [''gender''] () None None)) = []"
  by code_simp

lemma sum_list_unit:
  "\<forall>v\<in>set ls. 0 \<le> v \<and> v \<le> (1::rat) \<Longrightarrow> 0 \<le> sum_list ls \<and> sum_list ls \<le> of_nat (length ls)"
  by (induction ls) auto

lemma group_mean_unit:
  assumes "\<forall>v\<in>set ls. 0 \<le> v \<and> v \<le> (1::rat)" and "group_mean ls = Some m"
  shows "0 \<le> m \<and> m \<le> 1"
proof -
  from assms(2) have ne: "ls \<noteq> []" and m: "m = float64 (sum_list ls / of_nat (length ls))"
    by (auto simp: group_mean_def split: if_splits)
  from ne have pos: "(0::rat) < of_nat (length ls)" by simp
  from sum_list_unit [OF assms(1)] pos
  have "0 \<le> sum_list ls / of_nat (length ls)" "sum_list ls / of_nat (length ls) \<le> 1"
    by (simp_all add: divide_le_eq)
  then show ?thesis unfolding m by (rule float64_unit)
qed

lemma group_labels_Cons:
  "group_labels ((k, l) # rows) key
     = (if k = key then (case l of None \<Rightarrow> [] | Some w \<Rightarrow> [w]) else []) @ group_labels rows key"
  by (simp add: group_labels_def)

lemma group_labels_subset:
  "v \<in> set (group_labels rows key) \<Longrightarrow> Some v \<in> snd ` set rows"
proof (induction rows)
  case Nil
  then show ?case by (simp add: group_labels_def)
next
  case (Cons row rows)
  obtain k l where row: "row = (k, l)" by (cases row)
  from Cons.prems have "v \<in> set (if k = key then (case l of None \<Rightarrow> [] | Some w \<Rightarrow> [w]) else [])
      \<or> v \<in> set (group_labels rows key)"
    unfolding row group_labels_Cons set_append by blast
  then show ?case
  proof
    assume "v \<in> set (if k = key then (case l of None \<Rightarrow> [] | Some w \<Rightarrow> [w]) else [])"
    then have "l = Some v" by (cases "k = key"; cases l) simp_all
    then show ?thesis by (simp add: row)
  next
    assume "v \<in> set (group_labels rows key)"
    with Cons.IH show ?thesis by auto
  qed
qed

lemma round4_mean_Some:
  assumes "Some r = map_option round4 (group_mean ls)"
  shows "\<exists>m. group_mean ls = Some m \<and> r = round4 m"
  using assms by (cases "group_mean ls") auto

lemma approval_rates_mem:
  "r \<in> set (approval_rates stats) \<Longrightarrow> \<exists>key total approvals. (key, total, approvals, Some r) \<in> set stats"
proof (induction stats)
  case Nil
  then show ?case by (simp add: approval_rates_def)
next
  case (Cons row stats)
  obtain key total approvals rate where row: "row = (key, total, approvals, rate)"
    by (cases row)
  have "approval_rates (row # stats)
      = (case rate of None \<Rightarrow> [] | Some x \<Rightarrow> [x]) @ approval_rates stats"
    by (simp add: approval_rates_def row)
  with Cons.prems have "r \<in> set (case rate of None \<Rightarrow> [] | Some x \<Rightarrow> [x])
      \<or> r \<in> set (approval_rates stats)"
    by auto
  then show ?case
  proof
    assume "r \<in> set (case rate of None \<Rightarrow> [] | Some x \<Rightarrow> [x])"
    then have "rate = Some r" by (auto split: option.splits)
    then show ?thesis unfolding row by auto
  next
    assume "r \<in> set (approval_rates stats)"
    with Cons.IH show ?thesis by auto
  qed
qed

lemma approval_rates_unit:
  assumes "\<forall>l\<in>snd ` set rows. l = None \<or> l = Some 0 \<or> l = Some 1"
    and "r \<in> set (approval_rates (group_stats rows))"
  shows "0 \<le> r \<and> r \<le> 1"
proof -
  from approval_rates_mem [OF assms(2)] obtain key total approvals where
    "(key, total, approvals, Some r) \<in> set (group_stats rows)" by blast
  then have "Some r = map_option round4 (group_mean (group_labels rows key))"
    by (auto simp: group_stats_def group_row_def)
  from round4_mean_Some [OF this]
  obtain m where m: "group_mean (group_labels rows key) = Some m" and rm: "r = round4 m"
    by blast
  have "\<forall>v\<in>set (group_labels rows key). 0 \<le> v \<and> v \<le> 1"
  proof
    fix v assume "v \<in> set (group_labels rows key)"
    then have "Some v \<in> snd ` set rows" by (rule group_labels_subset)
    with assms(1) have "v = 0 \<or> v = 1" by auto
    then show "0 \<le> v \<and> v \<le> 1" by auto
  qed
  from group_mean_unit [OF this m] show ?thesis
    unfolding rm by (intro round4_unit) simp_all
qed

lemma fold_max_ge: "(r::rat) \<le> fold max rs r \<and> (\<forall>x\<in>set rs. x \<le> fold max rs r)"
proof (induction rs arbitrary: r)
  case Nil
  then show ?case by simp
next
  case (Cons a rs)
  from Cons [of "max a r"] show ?case by (auto simp: max_def split: if_splits)
qed

lemma fold_max_mem: "fold max rs (r::rat) \<in> set (r # rs)"
proof (induction rs arbitrary: r)
  case Nil
  then show ?case by simp
next
  case (Cons a rs)
  from Cons [of "max a r"] show ?case by (auto simp: max_def split: if_splits)
qed

lemma fold_min_le: "fold min rs r \<le> (r::rat) \<and> (\<forall>x\<in>set rs. fold min rs r \<le> x)"
proof (induction rs arbitrary: r)
  case Nil
  then show ?case by simp
next
  case (Cons a rs)
  from Cons [of "min a r"] show ?case by (auto simp: min_def split: if_splits)
qed

lemma fold_min_mem: "fold min rs (r::rat) \<in> set (r # rs)"
proof (induction rs arbitrary: r)
  case Nil
  then show ?case by simp
next
  case (Cons a rs)
  from Cons [of "min a r"] show ?case by (auto simp: min_def split: if_splits)
qed

lemma max_min_rate:
  assumes "max_rate rates = Some mx"
  shows "\<exists>mn. min_rate rates = Some mn \<and> mn \<le> mx \<and> mn \<in> set rates \<and> mx \<in> set rates"
proof (cases rates)
  case Nil
  with assms show ?thesis by simp
next
  case (Cons r rs)
  with assms have mx: "mx = fold max rs r" by simp
  have "fold min rs r \<le> r" "r \<le> fold max rs r"
    using fold_min_le [of rs r] fold_max_ge [of r rs] by simp_all
  then have "fold min rs r \<le> mx" unfolding mx by simp
  with Cons mx fold_min_mem [of rs r] fold_max_mem [of rs r] show ?thesis by simp
qed

lemma max_rate_None: "max_rate rates = None \<Longrightarrow> disparate_impact rates = []"
  by (cases rates) (simp_all add: disparate_impact_def)

lemma disparate_impact_cases:
  assumes "\<forall>r\<in>set rates. 0 \<le> r \<and> r \<le> 1"
  shows "disparate_impact rates = []
         \<and> (max_rate rates = None \<or> (\<exists>mx. max_rate rates = Some mx \<and> \<not> 0 < mx))
       \<or> (\<exists>mx mn. max_rate rates = Some mx \<and> min_rate rates = Some mn \<and> 0 < mx
            \<and> 0 \<le> float64 (mn / mx) \<and> float64 (mn / mx) \<le> 1
            \<and> disparate_impact rates
                = [Impact_ratio (float64 (mn / mx)),
                   if float64 (mn / mx) < 8 / 10 then Line warning_line else Line no_bias_line])"
proof (cases "max_rate rates")
  case None
  then show ?thesis by (simp add: max_rate_None)
next
  case (Some mx)
  from max_min_rate [OF Some] obtain mn where
    mn: "min_rate rates = Some mn" "mn \<le> mx" "mn \<in> set rates" "mx \<in> set rates"
    by blast
  show ?thesis
  proof (cases "0 < mx")
    case False
    with Some mn(1) show ?thesis by (simp add: disparate_impact_def)
  next
    case True
    from assms mn(3) have "0 \<le> mn" by blast
    with True mn(2) have q: "0 \<le> mn / mx" "mn / mx \<le> 1"
      by (simp_all add: divide_le_eq)
    note u = float64_unit [OF q]
    have "disparate_impact rates
        = [Impact_ratio (float64 (mn / mx)),
           if float64 (mn / mx) < float64 (8 / 10) then Line warning_line else Line no_bias_line]"
      using Some mn(1) True by (simp add: disparate_impact_def)
    then have "disparate_impact rates
        = [Impact_ratio (float64 (mn / mx)),
           if float64 (mn / mx) < 8 / 10 then Line warning_line else Line no_bias_line]"
      unfolding below_double_0_8 [OF q(1)] .
    with Some mn(1) True u show ?thesis by blast
  qed
qed

lemma warning_line_neq:
  "warning_line \<noteq> no_bias_line"
  "''--- Analysis for '' @ attr @ '' ---'' \<noteq> warning_line"
  "''Note: Converted '' @ quoted attr @ '' to numeric for basic bias analysis.'' \<noteq> warning_line"
  by (simp_all add: warning_line_def no_bias_line_def)

lemma attr_rows_labels: "snd ` set (attr_rows to_num attr data labels) \<subseteq> set labels"
  by (auto simp: attr_rows_def dest: set_zip_rightD)

lemma text_labels_are_binary:
  assumes "resolve_label (Text vs) = Some labels"
  shows "list_all (\<lambda>l. l = None \<or> l = Some 0 \<or> l = Some 1) labels"
proof -
  from assms have "labels = map (map_of [(unique vs ! 0, 0), (unique vs ! 1, 1)]) vs"
    by (simp add: Let_def split: if_splits)
  then show ?thesis by (auto simp: list_all_iff)
qed

lemma first_seen_label_is_zero:
  "resolve_label (Text [Some ''no'', Some ''yes'', Some ''no'']) = Some [Some 0, Some 1, Some 0]"
  by code_simp

lemma loans_columns:
  "get_column loans ''approved''
     = Inr \<lparr>col_name = ''approved'', col_data = Numbers Int64 [Some 1, Some 1, Some 1, Some 0]\<rparr>"
  "attr_column loans ''gender''
     = Inr \<lparr>col_name = ''gender'', col_data = Text [Some ''M'', Some ''M'', Some ''F'', Some ''F'']\<rparr>"
  by (simp_all add: get_column_def attr_column_def group_key_def labelled_def loans_def lower_def)

lemma loans_rates:
  "approval_rates (group_stats (attr_rows (\<lambda>v. None) ''gender''
      (Text [Some ''M'', Some ''M'', Some ''F'', Some ''F''])
      [Some 1, Some 1, Some 1, Some 0])) = [1, 1 / 2]"
  by code_simp

text \<open>
  C4, as stated, fails at the boundary. In \<open>nine_decisions\<close> three of the five
  decisions of team A and three of the four of team B are positive: the group rates are
  3/5 and 3/4, their quotient is exactly 4/5, and the detector prints the warning. The
  quotient it computes is the double quotient of the doubles 0.6 and 0.75, which is the
  double just below the double of the literal \<^verbatim>\<open>0.8\<close>. In \<open>fifteen_decisions\<close> the
  group rates are 1/3 and 5/12, their quotient is again exactly 4/5, and the detector
  divides the rates rounded to four decimals, 0.3333 and 0.4167, and prints the warning.
\<close>

theorem exact_four_fifths_is_flagged:
  "((3::rat) / 5) / (3 / 4) = 8 / 10
   \<and> analyse_attribute (\<lambda>v. None) nine_decisions ''approved'' ''team''
     = Inr [Line ''--- Analysis for team ---'',
            Group_table [(Str ''A'', 5, 3, Some (float64 (3 / 5))), (Str ''B'', 4, 3, Some (3 / 4))],
            Impact_ratio (7205759403792793 / 9007199254740992),
            Line warning_line]
   \<and> float64 (8 / 10) = 7205759403792794 / 9007199254740992
   \<and> ((1::rat) / 3) / (5 / 12) = 8 / 10
   \<and> analyse_attribute (\<lambda>v. None) fifteen_decisions ''approved'' ''team''
     = Inr [Line ''--- Analysis for team ---'',
            Group_table [(Str ''C'', 3, 1, Some (float64 (3333 / 10000))),
                         (Str ''D'', 12, 5, Some (float64 (4167 / 10000)))],
            Impact_ratio (7204462470854745 / 9007199254740992),
            Line warning_line]"
  by code_simp

text \<open>
  C4, amended. Let the label column resolve to values that are 0, 1 or missing, and let
  the protected attribute be a column of the dataset. The rate of a group is the double
  quotient of its positive and its counted labels, rounded to four decimals. Then the
  analysis of the attribute returns; every ratio it prints lies between 0 and 1; it
  prints the warning exactly when it prints a ratio below 0.8; when the highest group
  rate is above 0 the ratio it prints is the double nearest to the lowest rate divided by
  the highest (so that two rates whose quotient is exactly 0.8 may be flagged); and when
  the highest rate is 0, or no group has a rate, it prints neither a ratio nor the
  warning.
\<close>

theorem four_fifths_rule_on_doubles:
  assumes "get_column dataset label_column = Inr label"
    and "resolve_label (col_data label) = Some labels"
    and "list_all (\<lambda>l. l = None \<or> l = Some 0 \<or> l = Some 1) labels"
    and "attr_column dataset attr = Inr a"
  shows "\<exists>out. analyse_attribute to_num dataset label_column attr = Inr out
     \<and> (\<forall>r. Impact_ratio r \<in> set out \<longrightarrow> 0 \<le> r \<and> r \<le> 1)
     \<and> (Line warning_line \<in> set out \<longleftrightarrow> (\<exists>r. Impact_ratio r \<in> set out \<and> r < 8 / 10))
     \<and> (case max_rate (approval_rates (group_stats (attr_rows to_num attr (col_data a) labels))) of
          None \<Rightarrow> Line warning_line \<notin> set out \<and> (\<forall>r. Impact_ratio r \<notin> set out)
        | Some mx \<Rightarrow>
            if 0 < mx
            then \<exists>mn. min_rate (approval_rates
                         (group_stats (attr_rows to_num attr (col_data a) labels))) = Some mn
                   \<and> (\<forall>r. Impact_ratio r \<in> set out \<longleftrightarrow> r = float64 (mn / mx))
            else Line warning_line \<notin> set out \<and> (\<forall>r. Impact_ratio r \<notin> set out))"
proof -
  define rows where "rows = attr_rows to_num attr (col_data a) labels"
  define rates where "rates = approval_rates (group_stats rows)"
  define head where "head = [Line (''--- Analysis for '' @ attr @ '' ---'')]
       @ (if needs_conversion attr (col_data a)
          then [Line (''Note: Converted '' @ quoted attr @ '' to numeric for basic bias analysis.'')]
          else [])
       @ [Group_table (group_stats rows)]"
  have out: "analyse_attribute to_num dataset label_column attr
      = Inr (head @ disparate_impact rates)"
    using assms(1,2,4) by (simp add: analyse_attribute_def head_def rates_def rows_def)
  have head: "Line warning_line \<notin> set head" "\<And>r. Impact_ratio r \<notin> set head"
    unfolding head_def using warning_line_neq(2,3) [of attr] by auto
  have "\<forall>l\<in>snd ` set rows. l = None \<or> l = Some 0 \<or> l = Some 1"
  proof
    fix l assume "l \<in> snd ` set rows"
    with attr_rows_labels [of to_num attr "col_data a" labels] have "l \<in> set labels"
      unfolding rows_def by blast
    with assms(3) show "l = None \<or> l = Some 0 \<or> l = Some 1"
      by (simp add: list_all_iff)
  qed
  then have "\<forall>r\<in>set rates. 0 \<le> r \<and> r \<le> 1"
    unfolding rates_def using approval_rates_unit by blast
  from disparate_impact_cases [OF this]
  have "?thesis"
    unfolding rows_def [symmetric] rates_def [symmetric]
  proof (elim disjE conjE exE)
    assume e: "disparate_impact rates = []" and "max_rate rates = None"
    with head show "\<exists>out. analyse_attribute to_num dataset label_column attr = Inr out
     \<and> (\<forall>r. Impact_ratio r \<in> set out \<longrightarrow> 0 \<le> r \<and> r \<le> 1)
     \<and> (Line warning_line \<in> set out \<longleftrightarrow> (\<exists>r. Impact_ratio r \<in> set out \<and> r < 8 / 10))
     \<and> (case max_rate rates of
          None \<Rightarrow> Line warning_line \<notin> set out \<and> (\<forall>r. Impact_ratio r \<notin> set out)
        | Some mx \<Rightarrow>
            if 0 < mx
            then \<exists>mn. min_rate rates = Some mn
                   \<and> (\<forall>r. Impact_ratio r \<in> set out \<longleftrightarrow> r = float64 (mn / mx))
            else Line warning_line \<notin> set out \<and> (\<forall>r. Impact_ratio r \<notin> set out))"
      unfolding out by simp
  next
    fix mx assume e: "disparate_impact rates = []" and "max_rate rates = Some mx" "\<not> 0 < mx"
    with head show "\<exists>out. analyse_attribute to_num dataset label_column attr = Inr out
     \<and> (\<forall>r. Impact_ratio r \<in> set out \<longrightarrow> 0 \<le> r \<and> r \<le> 1)
     \<and> (Line warning_line \<in> set out \<longleftrightarrow> (\<exists>r. Impact_ratio r \<in> set out \<and> r < 8 / 10))
     \<and> (case max_rate rates of
          None \<Rightarrow> Line warning_line \<notin> set out \<and> (\<forall>r. Impact_ratio r \<notin> set out)
        | Some mx \<Rightarrow>
            if 0 < mx
            then \<exists>mn. min_rate rates = Some mn
                   \<and> (\<forall>r. Impact_ratio r \<in> set out \<longleftrightarrow> r = float64 (mn / mx))
            else Line warning_line \<notin> set out \<and> (\<forall>r. Impact_ratio r \<notin> set out))"
      unfolding out by simp
  next
    fix mx mn
    assume m: "max_rate rates = Some mx" "min_rate rates = Some mn" "0 < mx"
      "0 \<le> float64 (mn / mx)" "float64 (mn / mx) \<le> 1"
      and d: "disparate_impact rates
                = [Impact_ratio (float64 (mn / mx)),
                   if float64 (mn / mx) < 8 / 10 then Line warning_line else Line no_bias_line]"
    define ratio where "ratio = float64 (mn / mx)"
    define verdict where
      "verdict = (if ratio < 8 / 10 then Line warning_line else Line no_bias_line)"
    define printed where "printed = head @ disparate_impact rates"
    have v: "verdict = Line warning_line \<longleftrightarrow> ratio < 8 / 10" "\<And>r. verdict \<noteq> Impact_ratio r"
      unfolding verdict_def using warning_line_neq(1) by auto
    have s: "set printed = set head \<union> {Impact_ratio ratio, verdict}"
      unfolding printed_def d verdict_def ratio_def by simp
    have 3: "Impact_ratio r \<in> set printed \<longleftrightarrow> r = ratio" for r
      unfolding s using head(2) v(2) by auto
    have 1: "\<forall>r. Impact_ratio r \<in> set printed \<longrightarrow> 0 \<le> r \<and> r \<le> 1"
      unfolding 3 using m(4,5) by (simp add: ratio_def)
    have "Line warning_line \<in> set printed \<longleftrightarrow> verdict = Line warning_line"
      unfolding s using head(1) by auto
    then have 2: "Line warning_line \<in> set printed
        \<longleftrightarrow> (\<exists>r. Impact_ratio r \<in> set printed \<and> r < 8 / 10)"
      unfolding 3 v(1) by simp
    have 4: "case max_rate rates of
          None \<Rightarrow> Line warning_line \<notin> set printed \<and> (\<forall>r. Impact_ratio r \<notin> set printed)
        | Some mx \<Rightarrow>
            if 0 < mx
            then \<exists>mn. min_rate rates = Some mn
                   \<and> (\<forall>r. Impact_ratio r \<in> set printed \<longleftrightarrow> r = float64 (mn / mx))
            else Line warning_line \<notin> set printed \<and> (\<forall>r. Impact_ratio r \<notin> set printed)"
      unfolding m(1) 3 using m(2,3) by (simp add: ratio_def)
    show "\<exists>out. analyse_attribute to_num dataset label_column attr = Inr out
     \<and> (\<forall>r. Impact_ratio r \<in> set out \<longrightarrow> 0 \<le> r \<and> r \<le> 1)
     \<and> (Line warning_line \<in> set out \<longleftrightarrow> (\<exists>r. Impact_ratio r \<in> set out \<and> r < 8 / 10))
     \<and> (case max_rate rates of
          None \<Rightarrow> Line warning_line \<notin> set out \<and> (\<forall>r. Impact_ratio r \<notin> set out)
        | Some mx \<Rightarrow>
            if 0 < mx
            then \<exists>mn. min_rate rates = Some mn
                   \<and> (\<forall>r. Impact_ratio r \<in> set out \<longleftrightarrow> r = float64 (mn / mx))
            else Line warning_line \<notin> set out \<and> (\<forall>r. Impact_ratio r \<notin> set out))"
      unfolding out printed_def [symmetric]
      by (intro exI [of _ printed] conjI refl 1 2 4)
  qed
  then show ?thesis .
qed

theorem four_fifths_rule_on_doubles_witness:
  "get_column loans ''approved''
     = Inr \<lparr>col_name = ''approved'', col_data = Numbers Int64 [Some 1, Some 1, Some 1, Some 0]\<rparr>
   \<and> resolve_label (Numbers Int64 [Some 1, Some 1, Some 1, Some 0])
       = Some [Some 1, Some 1, Some 1, Some 0]
   \<and> list_all (\<lambda>l. l = None \<or> l = Some 0 \<or> l = Some 1) [Some 1, Some 1, Some 1, Some (0::rat)]
   \<and> attr_column loans ''gender''
       = Inr \<lparr>col_name = ''gender'', col_data = Text [Some ''M'', Some ''M'', Some ''F'', Some ''F'']\<rparr>
   \<and> (\<exists>out. analyse_attribute (\<lambda>v. None) loans ''approved'' ''gender'' = Inr out
         \<and> Impact_ratio (1 / 2) \<in> set out \<and> Line warning_line \<in> set out)"
proof -
  have r: "resolve_label (col_data \<lparr>col_name = ''approved'',
                col_data = Numbers Int64 [Some 1, Some 1, Some 1, Some 0]\<rparr>)
       = Some [Some 1, Some 1, Some 1, Some 0]"
    by simp
  have b: "list_all (\<lambda>l. l = None \<or> l = Some 0 \<or> l = Some 1) [Some 1, Some 1, Some 1, Some (0::rat)]"
    by simp
  note t = four_fifths_rule_on_doubles [OF loans_columns(1) r b loans_columns(2), of "\<lambda>v. None"]
  have e: "approval_rates (group_stats (attr_rows (\<lambda>v. None) ''gender''
      (col_data \<lparr>col_name = ''gender'',
         col_data = Text [Some ''M'', Some ''M'', Some ''F'', Some ''F'']\<rparr>)
      [Some 1, Some 1, Some 1, Some 0])) = [1, 1 / 2]"
    by (simp only: column.select_convs loans_rates)
  have m: "max_rate [1, 1 / 2] = Some 1" "min_rate [1, 1 / 2] = Some (1 / 2)"
    by simp_all
  have h: "float64 (1 / 2 / 1) = 1 / 2" by code_simp
  from t obtain out where o: "analyse_attribute (\<lambda>v. None) loans ''approved'' ''gender'' = Inr out"
    and w: "Line warning_line \<in> set out \<longleftrightarrow> (\<exists>r. Impact_ratio r \<in> set out \<and> r < 8 / 10)"
    and c: "case max_rate [1, 1 / 2] of
          None \<Rightarrow> Line warning_line \<notin> set out \<and> (\<forall>r. Impact_ratio r \<notin> set out)
        | Some mx \<Rightarrow>
            if 0 < mx
            then \<exists>mn. min_rate [1, 1 / 2] = Some mn
                   \<and> (\<forall>r. Impact_ratio r \<in> set out \<longleftrightarrow> r = float64 (mn / mx))
            else Line warning_line \<notin> set out \<and> (\<forall>r. Impact_ratio r \<notin> set out)"
    unfolding e by (elim exE conjE)
  from c have "\<exists>mn. min_rate [1, 1 / 2] = Some mn
      \<and> (\<forall>r. Impact_ratio r \<in> set out \<longleftrightarrow> r = float64 (mn / 1))"
    unfolding m(1) by simp
  then obtain mn where mn: "min_rate [1, 1 / 2] = Some mn"
    "\<forall>r. Impact_ratio r \<in> set out \<longleftrightarrow> r = float64 (mn / 1)"
    by blast
  from mn(1) have "mn = 1 / 2" unfolding m(2) by simp
  with mn(2) h have i: "Impact_ratio (1 / 2) \<in> set out" by simp
  then have "\<exists>r. Impact_ratio r \<in> set out \<and> r < 8 / 10"
    by (intro exI [of _ "1 / 2"]) simp
  with w have "Line warning_line \<in> set out" by simp
  with o i r b loans_columns show ?thesis by simp
qed

section \<open>Row order and PII detection\<close>

lemma not_word_space: "\<not> is_word CHR '' ''"
  by (simp add: is_word_def letters_def digits_def)

lemma boundary_space: "boundary prev (s @ CHR '' '' # t) = boundary prev s"
  by (cases prev; cases s) (simp_all add: not_word_space)

lemma boundary_after_nonword: "\<not> is_word c \<Longrightarrow> boundary (Some c) s = boundary None s"
  by (cases s) simp_all

lemma rx_match_space:
  "list_all no_space p \<Longrightarrow>
   rx_match p prev (s @ CHR '' '' # t)
     = map_option (\<lambda>(q, r). (q, r @ CHR '' '' # t)) (rx_match p prev s)"
proof (induction p prev s rule: rx_match.induct)
  case (1 prev s)
  then show ?case by simp
next
  case (2 rs prev s)
  then show ?case by (simp add: boundary_space)
next
  case (3 cls lo hi rs prev)
  then show ?case by simp
next
  case (4 cls lo hi rs prev c cs)
  then show ?case by (simp split: option.splits)
next
  case (5 body rs prev s)
  then show ?case by (simp split: option.splits)
qed

lemma rx_match_length:
  "rx_match p prev s = Some (q, r) \<Longrightarrow> length r \<le> length s"
proof (induction p prev s arbitrary: q r rule: rx_match.induct)
  case (1 prev s)
  then show ?case by simp
next
  case (2 rs prev s)
  then show ?case by (simp split: if_splits)
next
  case (3 cls lo hi rs prev)
  then show ?case by (simp split: if_splits)
next
  case (4 cls lo hi rs prev c cs)
  then show ?case by (fastforce split: option.splits if_splits)
next
  case (5 body rs prev s)
  then show ?case by (simp split: option.splits)
qed

lemma anchored_consumes:
  assumes "rx_match (WordB # Rep cls (Suc n) hi # rs) prev s = Some (q, r)"
  shows "length r < length s"
proof (cases s)
  case Nil
  with assms show ?thesis by (simp split: if_splits)
next
  case (Cons c cs)
  with assms have "rx_match (Rep cls n (dec_hi hi) # rs) (Some c) cs = Some (q, r)"
    by (simp split: if_splits option.splits)
  from rx_match_length [OF this] Cons show ?thesis by simp
qed

lemma anchored_prev:
  assumes "\<not> is_word c"
  shows "rx_match (WordB # Rep cls (Suc n) hi # rs) (Some c) s
       = rx_match (WordB # Rep cls (Suc n) hi # rs) None s"
  using assms by (cases s) (simp_all add: boundary_after_nonword)

lemma anchored_empty: "rx_match (WordB # Rep cls (Suc n) hi # rs) prev [] = None"
  by simp

lemma findall_empty:
  "findall_count (WordB # Rep cls (Suc n) hi # rs) prev [] = 0"
  by (subst findall_count.simps) simp

lemma findall_prev:
  assumes "\<not> is_word c"
  shows "findall_count (WordB # Rep cls (Suc n) hi # rs) (Some c) s
       = findall_count (WordB # Rep cls (Suc n) hi # rs) None s"
  by (subst findall_count.simps, subst (2) findall_count.simps)
     (simp only: anchored_prev [OF assms])

lemma findall_space:
  assumes "list_all no_space (WordB # Rep cls (Suc n) hi # rs)"
  shows "findall_count (WordB # Rep cls (Suc n) hi # rs) prev (s @ CHR '' '' # t)
       = findall_count (WordB # Rep cls (Suc n) hi # rs) prev s
         + findall_count (WordB # Rep cls (Suc n) hi # rs) None t"
proof (induction "length s" arbitrary: s prev rule: less_induct)
  case less
  let ?p = "WordB # Rep cls (Suc n) hi # rs"
  note sp = rx_match_space [OF assms, of prev s t]
  show ?case
  proof (cases "rx_match ?p prev s")
    case None
    then have n: "rx_match ?p prev (s @ CHR '' '' # t) = None"
      using sp by simp
    show ?thesis
    proof (cases s)
      case Nil
      have "findall_count ?p prev (CHR '' '' # t) = findall_count ?p (Some CHR '' '') t"
        using n Nil by (subst findall_count.simps) simp
      then show ?thesis
        using Nil by (simp add: findall_empty findall_prev [OF not_word_space])
    next
      case (Cons c cs)
      have l: "findall_count ?p prev ((c # cs) @ CHR '' '' # t)
          = findall_count ?p (Some c) (cs @ CHR '' '' # t)"
        using n Cons by (subst findall_count.simps) simp
      have r: "findall_count ?p prev (c # cs) = findall_count ?p (Some c) cs"
        using None Cons by (subst findall_count.simps) simp
      from less [of cs "Some c"] Cons l r show ?thesis by simp
    qed
  next
    case (Some m)
    obtain q r where m: "m = (q, r)" by (cases m)
    from Some m have lt: "length r < length s"
      using anchored_consumes by blast
    have j: "rx_match ?p prev (s @ CHR '' '' # t) = Some (q, r @ CHR '' '' # t)"
      using sp Some m by simp
    have l: "findall_count ?p prev (s @ CHR '' '' # t)
        = 1 + findall_count ?p q (r @ CHR '' '' # t)"
      using j lt by (subst findall_count.simps) simp
    have rr: "findall_count ?p prev s = 1 + findall_count ?p q r"
      using Some m lt by (subst findall_count.simps) simp
    from less [OF lt, of q] l rr show ?thesis by simp
  qed
qed

lemma count_matches_join:
  assumes "list_all no_space (WordB # Rep cls (Suc n) hi # rs)"
  shows "count_matches (WordB # Rep cls (Suc n) hi # rs) (join_space xs)
       = sum_list (map (count_matches (WordB # Rep cls (Suc n) hi # rs)) xs)"
proof (induction xs rule: join_space.induct)
  case 1
  then show ?case by (simp add: count_matches_def findall_empty)
next
  case (2 s)
  then show ?case by simp
next
  case (3 s t ts)
  then show ?case
    using findall_space [OF assms, of None s "join_space (t # ts)"]
    by (simp add: count_matches_def)
qed

lemma count_matches_permuted:
  assumes "list_all no_space (WordB # Rep cls (Suc n) hi # rs)" and "mset vs' = mset vs"
  shows "count_matches (WordB # Rep cls (Suc n) hi # rs) (text_data vs')
       = count_matches (WordB # Rep cls (Suc n) hi # rs) (text_data vs)"
proof -
  let ?f = "\<lambda>v. count_matches (WordB # Rep cls (Suc n) hi # rs) (astype_str v)"
  have "sum_list (map ?f vs') = sum_mset (image_mset ?f (mset vs'))"
    by (simp flip: sum_mset_sum_list)
  also have "\<dots> = sum_mset (image_mset ?f (mset vs))"
    by (simp only: assms(2))
  also have "\<dots> = sum_list (map ?f vs)"
    by (simp flip: sum_mset_sum_list)
  finally show ?thesis
    by (simp add: text_data_def count_matches_join [OF assms(1)] comp_def)
qed

lemma patterns_no_space:
  "list_all no_space email_rx \<and> list_all no_space phone_rx \<and> list_all no_space ssn_rx
   \<and> list_all no_space zipcode_rx"
  by code_simp

lemma pattern_shapes:
  "\<exists>cls n hi rs. email_rx = WordB # Rep cls (Suc n) hi # rs"
  "\<exists>cls n hi rs. phone_rx = WordB # Rep cls (Suc n) hi # rs"
  "\<exists>cls n hi rs. ssn_rx = WordB # Rep cls (Suc n) hi # rs"
  "\<exists>cls n hi rs. zipcode_rx = WordB # Rep cls (Suc n) hi # rs"
  by (simp_all add: email_rx_def phone_rx_def ssn_rx_def zipcode_rx_def eval_nat_numeral)

lemma pattern_counts_permuted:
  assumes "mset vs' = mset vs"
  shows "count_matches email_rx (text_data vs') = count_matches email_rx (text_data vs)"
    and "count_matches phone_rx (text_data vs') = count_matches phone_rx (text_data vs)"
    and "count_matches ssn_rx (text_data vs') = count_matches ssn_rx (text_data vs)"
    and "count_matches zipcode_rx (text_data vs') = count_matches zipcode_rx (text_data vs)"
  using patterns_no_space pattern_shapes count_matches_permuted [OF _ assms] by metis+

lemma prefix_before_space:
  assumes "CHR '' '' \<notin> set needle"
  shows "prefix needle (a @ CHR '' '' # b) \<longleftrightarrow> prefix needle a"
proof
  assume "prefix needle (a @ CHR '' '' # b)"
  then consider "prefix needle a" | us where "needle = a @ us" "us \<noteq> []" "prefix us (CHR '' '' # b)"
    unfolding prefix_append by (cases "needle = a") auto
  then show "prefix needle a"
  proof cases
    case 1
    then show ?thesis .
  next
    case 2
    then obtain u us' where "us = u # us'" by (cases us) auto
    with 2(3) have "u = CHR '' ''" by simp
    with 2(1) \<open>us = u # us'\<close> assms show ?thesis by simp
  qed
next
  assume "prefix needle a"
  then show "prefix needle (a @ CHR '' '' # b)" by (rule prefix_prefix)
qed

lemma py_in_append_space:
  assumes "CHR '' '' \<notin> set needle" and "needle \<noteq> []"
  shows "py_in needle (a @ CHR '' '' # b) \<longleftrightarrow> py_in needle a \<or> py_in needle b"
proof (induction a)
  case Nil
  have "\<not> prefix needle (CHR '' '' # b)"
    using assms by (cases needle) auto
  with assms(2) show ?case by simp
next
  case (Cons c a)
  have "prefix needle (c # a @ CHR '' '' # b) \<longleftrightarrow> prefix needle (c # a)"
    using prefix_before_space [OF assms(1), of "c # a" b] by simp
  with Cons show ?case by auto
qed

lemma py_in_join_space:
  assumes "CHR '' '' \<notin> set needle" and "needle \<noteq> []"
  shows "py_in needle (join_space xs) \<longleftrightarrow> list_ex (py_in needle) xs"
proof (induction xs rule: join_space.induct)
  case 1
  with assms(2) show ?case by simp
next
  case (2 s)
  then show ?case by simp
next
  case (3 s t ts)
  then show ?case by (simp add: py_in_append_space [OF assms])
qed

lemma lower_join_space: "lower (join_space xs) = join_space (map lower xs)"
  by (induction xs rule: join_space.induct) (simp_all add: lower_def lower_char_def)

lemma name_in_text_data:
  assumes "CHR '' '' \<notin> set name" and "name \<noteq> []"
  shows "py_in name (lower (text_data vs)) \<longleftrightarrow> (\<exists>v\<in>set vs. py_in name (lower (astype_str v)))"
  by (simp add: text_data_def lower_join_space py_in_join_space [OF assms] list_ex_iff)

lemma names_without_space:
  "\<forall>name\<in>set first_names. CHR '' '' \<notin> set name \<and> name \<noteq> []"
  "\<forall>name\<in>set last_names. CHR '' '' \<notin> set name \<and> name \<noteq> []"
  by (simp_all add: first_names_def last_names_def)

lemma name_counts_permuted:
  assumes "mset vs' = mset vs"
  shows "first_name_count (text_data vs') = first_name_count (text_data vs)"
    and "last_name_count (text_data vs') = last_name_count (text_data vs)"
proof -
  from assms have s: "set vs' = set vs" by (rule mset_eq_setD)
  have "filter (\<lambda>name. py_in name (lower (text_data vs'))) first_names
      = filter (\<lambda>name. py_in name (lower (text_data vs))) first_names"
    using names_without_space(1) by (intro filter_cong refl) (simp add: name_in_text_data s)
  then show "first_name_count (text_data vs') = first_name_count (text_data vs)"
    by (simp add: first_name_count_def)
  have "filter (\<lambda>name. py_in name (lower (text_data vs'))) last_names
      = filter (\<lambda>name. py_in name (lower (text_data vs))) last_names"
    using names_without_space(2) by (intro filter_cong refl) (simp add: name_in_text_data s)
  then show "last_name_count (text_data vs') = last_name_count (text_data vs)"
    by (simp add: last_name_count_def)
qed

text \<open>
  C9, as stated, fails: the cells of a text column are joined with single spaces before
  the patterns are run, and the credit-card pattern accepts a space between its groups of
  four digits, so four cells of four digits count as one card number when they are
  adjacent rows and as none when another row stands between them.
\<close>

theorem credit_card_count_depends_on_row_order:
  "mset [Some ''1234'', Some ''x'', Some ''5678'', Some ''9012'', Some ''3456'']
     = mset [Some ''1234'', Some ''5678'', Some ''9012'', Some ''3456'', Some ''x'']
   \<and> count_matches credit_card_rx
        (text_data [Some ''1234'', Some ''5678'', Some ''9012'', Some ''3456'', Some ''x'']) = 1
   \<and> count_matches credit_card_rx
        (text_data [Some ''1234'', Some ''x'', Some ''5678'', Some ''9012'', Some ''3456'']) = 0"
proof -
  have "mset [Some ''1234'', Some ''x'', Some ''5678'', Some ''9012'', Some ''3456'']
     = mset [Some ''1234'', Some ''5678'', Some ''9012'', Some ''3456'', Some ''x'']"
    by (simp add: add_mset_commute)
  moreover have "count_matches credit_card_rx
        (text_data [Some ''1234'', Some ''5678'', Some ''9012'', Some ''3456'', Some ''x'']) = 1"
    by code_simp
  moreover have "count_matches credit_card_rx
        (text_data [Some ''1234'', Some ''x'', Some ''5678'', Some ''9012'', Some ''3456'']) = 0"
    by code_simp
  ultimately show ?thesis by blast
qed

text \<open>
  C9, amended. For every text column and every permutation of its rows, the counts of
  first-name and last-name hits and the match counts of the e-mail, phone, SSN and zip
  patterns are the same.
\<close>

theorem pii_counts_order_independent:
  assumes "mset vs' = mset vs"
  shows "first_name_count (text_data vs') = first_name_count (text_data vs)
     \<and> last_name_count (text_data vs') = last_name_count (text_data vs)
     \<and> count_matches email_rx (text_data vs') = count_matches email_rx (text_data vs)
     \<and> count_matches phone_rx (text_data vs') = count_matches phone_rx (text_data vs)
     \<and> count_matches ssn_rx (text_data vs') = count_matches ssn_rx (text_data vs)
     \<and> count_matches zipcode_rx (text_data vs') = count_matches zipcode_rx (text_data vs)"
  using name_counts_permuted [OF assms] pattern_counts_permuted [OF assms] by simp

theorem pii_counts_order_independent_witness:
  "mset [None, Some ''Mary'', Some ''555-123-4567'']
     = mset [Some ''555-123-4567'', Some ''Mary'', None]
   \<and> count_matches phone_rx (text_data [None, Some ''Mary'', Some ''555-123-4567''])
       = count_matches phone_rx (text_data [Some ''555-123-4567'', Some ''Mary'', None])
   \<and> first_name_count (text_data [None, Some ''Mary'', Some ''555-123-4567''])
       = first_name_count (text_data [Some ''555-123-4567'', Some ''Mary'', None])
   \<and> count_matches phone_rx (text_data [Some ''555-123-4567'', Some ''Mary'', None]) = 1
   \<and> first_name_count (text_data [Some ''555-123-4567'', Some ''Mary'', None]) = 1"
proof -
  have h: "mset [None, Some ''Mary'', Some ''555-123-4567'']
     = mset [Some ''555-123-4567'', Some ''Mary'', None]"
    by (simp add: add_mset_commute)
  have e: "count_matches phone_rx (text_data [Some ''555-123-4567'', Some ''Mary'', None]) = 1"
    by code_simp
  have f: "first_name_count (text_data [Some ''555-123-4567'', Some ''Mary'', None]) = 1"
    by code_simp
  from pii_counts_order_independent [OF h] h e f show ?thesis by simp
qed

end
